theory Spec2Isabelle
  imports Main "HOL-Library.Finite_Map" "HOL-Library.Char_ord" "HOL-Library.List_Lexorder"
begin

section \<open>Values, exceptions and the outside world\<close>

text \<open>
  The modules exchange JSON with Bitbucket Server. A JSON object is a Python dict, so it is a
  finite map: equality of two objects does not depend on the order of their keys, as in
  Python. JSON numbers are restricted to integers and strings to 8-bit characters; Python's
  numeric coercions (\<open>True == 1\<close>) are not part of the model.
\<close>

datatype json =
    JNull
  | JBool bool
  | JInt int
  | JStr string
  | JList "json list"
  | JObj "(string, json) fmap"

type_synonym pydict = "(string, json) fmap"

text \<open>Python truthiness (\<open>not x\<close>, \<open>if x\<close>, \<open>while not x\<close>).\<close>

fun truthy :: "json \<Rightarrow> bool" where
  "truthy JNull = False"
| "truthy (JBool b) = b"
| "truthy (JInt n) = (n \<noteq> 0)"
| "truthy (JStr s) = (s \<noteq> [])"
| "truthy (JList xs) = (xs \<noteq> [])"
| "truthy (JObj m) = (m \<noteq> fmempty)"

text \<open>
  Every way a run can stop abnormally. The Python exceptions carry the offending name or
  key; \<open>FailJson\<close> (\<open>module.fail_json(msg=...)\<close>) and \<open>AnsibleError\<close> carry the message
  template of the source, before \<open>.format\<close> fills its placeholders.
\<close>

datatype error =
    KeyError string
  | TypeError string
  | ValueError string
  | UnboundLocalError string
  | NameError string
  | AttributeError string
  | FailJson string
  | AnsibleError string

text \<open>
  An API URL is an entry of \<open>BITBUCKET_API_ENDPOINTS\<close> (named by its key, with any literal
  suffix the caller appends), the value formatted into a trailing \<open>{id}\<close> or \<open>{pullid}\<close>
  path segment, and the value formatted into the \<open>start={nextPageStart}\<close> query parameter.
  The remaining format arguments (server URL, project key, repository slug, filter text)
  are module parameters that stay fixed during a run and are left out.
\<close>

record api_url =
  endpoint :: string
  path_id :: "json option"
  start :: "json option"

record request_spec =
  url :: api_url
  http_method :: string
  data :: "json option"

text \<open>
  What \<open>fetch_url\<close> hands back: the response object (absent on a connection failure),
  seen through what \<open>response.read()\<close> and \<open>json.loads\<close> make of its body, and the
  \<open>info\<close> dict, of which the code reads \<open>info['status']\<close>.
\<close>

datatype body = NoBody | JsonBody json | TextBody string

record info =
  status :: int

type_synonym fetched = "body option \<times> info option"

text \<open>
  The transport is external: a function of the request and of the state of the world
  (server and network), returning the new state. The run's own effects are logged.
\<close>

datatype event = Fetch request_spec | Sleep int

type_synonym 'w fetcher = "request_spec \<Rightarrow> 'w \<Rightarrow> fetched \<times> 'w"

type_synonym 'w world = "event list \<times> 'w"

record params =
  retries :: int
  sleep :: int

section \<open>The retrying request executor: \<open>BitbucketHelper.request\<close>\<close>

text \<open>\<open>time.sleep\<close> rejects a negative duration.\<close>

definition time_sleep :: "int \<Rightarrow> 'w world \<Rightarrow> (error + unit) \<times> 'w world" where
  "time_sleep secs w =
     (if secs < 0 then (Inl (ValueError ''sleep length must be non-negative''), w)
      else (Inr (), (fst w @ [Sleep secs], snd w)))"

text \<open>
  The loop of bitbucket.py lines 107-121. \<open>n\<close> is the local counter \<open>retries\<close>, starting at
  1; \<open>prev\<close> is the pair \<open>response, info\<close>, which has no value until the first
  \<open>fetch_url\<close> returns.
\<close>

function request_loop ::
  "'w fetcher \<Rightarrow> int \<Rightarrow> int \<Rightarrow> request_spec \<Rightarrow> int \<Rightarrow> fetched option \<Rightarrow> 'w world
     \<Rightarrow> (error + fetched option \<times> int) \<times> 'w world" where
  "request_loop fetch_url max_retries secs spec n prev w =
     (if n \<le> max_retries then
        (case fetch_url spec (snd w) of (got, s) \<Rightarrow>
           (if (case snd got of None \<Rightarrow> False | Some i \<Rightarrow> status i \<noteq> - 1)
            then (Inr (Some got, n), (fst w @ [Fetch spec], s))
            else (case time_sleep secs (fst w @ [Fetch spec], s) of
                    (Inl e, w') \<Rightarrow> (Inl e, w')
                  | (Inr u, w') \<Rightarrow>
                      request_loop fetch_url max_retries secs spec (n + 1) (Some got) w')))
      else (Inr (prev, n), w))"
  by pat_completeness auto
termination
  by (relation "measure (\<lambda>(f, max_retries, secs, spec, n, prev, w). nat (max_retries + 1 - n))")
     auto

declare request_loop.simps [simp del]

text \<open>Lines 123-138: the \<open>content\<close> dict built from the body.\<close>

definition parse_body :: "body option \<Rightarrow> pydict" where
  "parse_body response =
     (case response of
        None \<Rightarrow> fmempty
      | Some NoBody \<Rightarrow> fmempty
      | Some (JsonBody (JObj js)) \<Rightarrow> js
      | Some (JsonBody js) \<Rightarrow> fmupd ''json'' js fmempty
      | Some (TextBody text) \<Rightarrow> fmupd ''content'' (JStr text) fmempty)"

definition request ::
  "'w fetcher \<Rightarrow> params \<Rightarrow> request_spec \<Rightarrow> 'w world
     \<Rightarrow> (error + info option \<times> pydict) \<times> 'w world" where
  "request fetch_url p spec w =
     (case request_loop fetch_url (retries p) (sleep p) spec 1 None w of
        (Inl e, w') \<Rightarrow> (Inl e, w')
      | (Inr (None, n), w') \<Rightarrow> (Inl (UnboundLocalError ''response''), w')
      | (Inr (Some (response, i), n), w') \<Rightarrow>
          (Inr (i, fmupd ''fetch_url_retries'' (JInt n) (parse_body response)), w'))"

section \<open>Python helpers\<close>

definition bindE :: "error + 'a \<Rightarrow> ('a \<Rightarrow> error + 'b) \<Rightarrow> error + 'b" where
  "bindE x f = (case x of Inl e \<Rightarrow> Inl e | Inr v \<Rightarrow> f v)"

text \<open>\<open>info['status']\<close>: subscripting \<open>None\<close> raises.\<close>

definition info_status :: "info option \<Rightarrow> error + int" where
  "info_status i =
     (case i of None \<Rightarrow> Inl (TypeError ''NoneType object is not subscriptable'')
      | Some x \<Rightarrow> Inr (status x))"

text \<open>
  Iterating a value (\<open>for x in v\<close>, \<open>list.extend(v)\<close>): the elements of a list, the
  characters of a string, the keys of a dict. A dict's keys come in sorted order here;
  Python yields them in insertion order, which a finite map does not record.
\<close>

fun py_iter :: "json \<Rightarrow> error + json list" where
  "py_iter (JList xs) = Inr xs"
| "py_iter (JStr s) = Inr (map (\<lambda>c. JStr [c]) s)"
| "py_iter (JObj m) = Inr (map JStr (sorted_list_of_fset (fmdom m)))"
| "py_iter v = Inl (TypeError ''object is not iterable'')"

definition list_extend :: "json list \<Rightarrow> json \<Rightarrow> error + json list" where
  "list_extend xs v = bindE (py_iter v) (\<lambda>ys. Inr (xs @ ys))"

text \<open>\<open>d.get(key, default)\<close> on an item: only a dict has \<open>get\<close>.\<close>

fun py_get :: "json \<Rightarrow> string \<Rightarrow> json \<Rightarrow> error + json" where
  "py_get (JObj m) k dflt = Inr (case fmlookup m k of None \<Rightarrow> dflt | Some v \<Rightarrow> v)"
| "py_get v k dflt = Inl (AttributeError ''get'')"

text \<open>\<open>v[key]\<close> with a string key.\<close>

fun py_getitem :: "json \<Rightarrow> string \<Rightarrow> error + json" where
  "py_getitem (JObj m) k = (case fmlookup m k of None \<Rightarrow> Inl (KeyError k) | Some v \<Rightarrow> Inr v)"
| "py_getitem (JStr s) k = Inl (TypeError ''string indices must be integers'')"
| "py_getitem (JList xs) k = Inl (TypeError ''list indices must be integers or slices'')"
| "py_getitem v k = Inl (TypeError ''object is not subscriptable'')"

text \<open>
  \<open>str.upper\<close>, \<open>str.lower\<close> and \<open>str.capitalize\<close>. A character is a code point below
  256: the letters are \<open>A-Z\<close>, \<open>a-z\<close> and those of the upper half (192-222 but 215 in upper
  case, 224-254 but 247 in lower case). Three code points have an upper-case form that is
  not one character below 256 (181, 223 and 255): they are left as they are, and strings
  holding them are outside the model.
\<close>

definition upper_char :: "char \<Rightarrow> char" where
  "upper_char c =
     (let n = (of_char c :: nat)
      in if (97 \<le> n \<and> n \<le> 122) \<or> (224 \<le> n \<and> n \<le> 254 \<and> n \<noteq> 247) then char_of (n - 32) else c)"

definition lower_char :: "char \<Rightarrow> char" where
  "lower_char c =
     (let n = (of_char c :: nat)
      in if (65 \<le> n \<and> n \<le> 90) \<or> (192 \<le> n \<and> n \<le> 222 \<and> n \<noteq> 215) then char_of (n + 32) else c)"

definition upper :: "string \<Rightarrow> string" where
  "upper s = map upper_char s"

definition lower :: "string \<Rightarrow> string" where
  "lower s = map lower_char s"

definition capitalize :: "string \<Rightarrow> string" where
  "capitalize s = (case s of [] \<Rightarrow> [] | c # cs \<Rightarrow> upper_char c # map lower_char cs)"

section \<open>Calling the executor\<close>

text \<open>
  Helpers and modules reach the server through \<open>bitbucket.request\<close> only. They are
  modelled over any function of that shape, of which \<open>request fetch_url p\<close> is the real
  one, and every request specification handed to it is recorded in the order of the calls.
\<close>

type_synonym reply = "error + info option \<times> pydict"

type_synonym 's requester = "request_spec \<Rightarrow> 's \<Rightarrow> reply \<times> 's"

type_synonym 's run = "request_spec list \<times> 's"

definition call :: "'s requester \<Rightarrow> request_spec \<Rightarrow> 's run \<Rightarrow> reply \<times> 's run" where
  "call req spec r = (case req spec (snd r) of (rep, s') \<Rightarrow> (rep, (fst r @ [spec], s')))"

definition get_of :: "api_url \<Rightarrow> request_spec" where
  "get_of u = \<lparr>url = u, http_method = ''GET'', data = None\<rparr>"

definition paged_url :: "string \<Rightarrow> json \<Rightarrow> api_url" where
  "paged_url ep nextPageStart = \<lparr>endpoint = ep, path_id = None, start = Some nextPageStart\<rparr>"

definition plain_url :: "string \<Rightarrow> api_url" where
  "plain_url ep = \<lparr>endpoint = ep, path_id = None, start = None\<rparr>"

section \<open>The paginated listers of \<open>BitbucketHelper\<close>\<close>

text \<open>
  The loop shared by the listing helpers (for instance bitbucket.py lines 212-231):
  \<^verbatim>\<open>
    isLastPage = False
    nextPageStart = 0
    while not isLastPage:
        info, content = self.request(api_url=..., method='GET')
        items.extend(content[key])
        if 'isLastPage' in content:
            isLastPage = content['isLastPage']
            if 'nextPageStart' in content:
                nextPageStart = content['nextPageStart']
        else:
            isLastPage = True
  \<close>
  \<open>isLastPage\<close> starts false, so the body runs at least once and \<open>info\<close> is bound when the
  loop ends. The loop need not end; \<open>fuel\<close> bounds the number of iterations, and running out
  of it is the result \<open>None\<close>. \<open>mk_url\<close> builds the URL from the current \<open>nextPageStart\<close>;
  \<open>key\<close> is \<open>'values'\<close> or \<open>'json'\<close>.
\<close>

fun page_loop ::
  "nat \<Rightarrow> 's requester \<Rightarrow> (json \<Rightarrow> api_url) \<Rightarrow> string \<Rightarrow> json list \<Rightarrow> json \<Rightarrow> 's run
     \<Rightarrow> (error + json list \<times> info option) option \<times> 's run" where
  "page_loop 0 req mk_url key items nextPageStart r = (None, r)"
| "page_loop (Suc fuel) req mk_url key items nextPageStart r =
     (case call req (get_of (mk_url nextPageStart)) r of
        (Inl e, r') \<Rightarrow> (Some (Inl e), r')
      | (Inr (i, content), r') \<Rightarrow>
          (case bindE (py_getitem (JObj content) key) (list_extend items) of
             Inl e \<Rightarrow> (Some (Inl e), r')
           | Inr items' \<Rightarrow>
               (case fmlookup content ''isLastPage'' of
                  None \<Rightarrow> (Some (Inr (items', i)), r')
                | Some isLastPage \<Rightarrow>
                    (if truthy isLastPage then (Some (Inr (items', i)), r')
                     else page_loop fuel req mk_url key items'
                            (case fmlookup content ''nextPageStart'' of
                               None \<Rightarrow> nextPageStart | Some c \<Rightarrow> c) r'))))"

text \<open>The status checks that follow the loop, applied to the last \<open>info\<close>.\<close>

definition after_pages ::
  "(json list \<Rightarrow> int \<Rightarrow> error + json list option)
     \<Rightarrow> (error + json list \<times> info option) option \<times> 's run
     \<Rightarrow> (error + json list option) option \<times> 's run" where
  "after_pages handlers res =
     (case res of
        (None, r) \<Rightarrow> (None, r)
      | (Some (Inl e), r) \<Rightarrow> (Some (Inl e), r)
      | (Some (Inr (items, i)), r) \<Rightarrow> (Some (bindE (info_status i) (handlers items)), r))"

definition get_all_projects_info ::
  "nat \<Rightarrow> 's requester \<Rightarrow> 's run \<Rightarrow> (error + json list option) option \<times> 's run" where
  "get_all_projects_info fuel req r =
     after_pages (\<lambda>projects st.
         if st = 200 then Inr (Some projects)
         else if st = 400
           then Inl (FailJson ''The permission level is unknown or not related to projects'')
         else Inl (FailJson ''Failed to retrieve the projects data.''))
       (page_loop fuel req (paged_url ''projects'') ''values'' [] (JInt 0) r)"


definition get_branches_info ::
  "nat \<Rightarrow> 's requester \<Rightarrow> bool \<Rightarrow> 's run \<Rightarrow> (error + json list option) option \<times> 's run" where
  "get_branches_info fuel req fail_when_not_exists r =
     after_pages (\<lambda>branches st.
         if st = 200 then Inr (Some branches)
         else if st = 401
           then Inl (FailJson ''The currently authenticated user has insufficient permissions to read `{repositorySlug}` repository.'')
         else if st = 404
           then (if fail_when_not_exists
                 then Inl (FailJson ''`{repositorySlug}` repository does not exist.'') else Inr None)
         else Inl (FailJson ''Failed to retrieve branches data which matches the supplied projectKey `{projectKey}` and repositorySlug `{repositorySlug}`: {info}''))
       (page_loop fuel req (paged_url ''branches'') ''values'' [] (JInt 0) r)"



text \<open>
  \<open>get_branch_permissions_info\<close> formats its URL once, before the loop (lines 544-558),
  with \<open>nextPageStart = 0\<close>: the loop updates \<open>nextPageStart\<close> but requests the same URL.
\<close>

definition branch_permissions_endpoint :: "string option \<Rightarrow> string" where
  "branch_permissions_endpoint repository =
     (case repository of None \<Rightarrow> ''branch-permissions-projects/''
      | Some slug \<Rightarrow> ''branch-permissions-repos/'')"

definition get_branch_permissions_info ::
  "nat \<Rightarrow> 's requester \<Rightarrow> bool \<Rightarrow> string option \<Rightarrow> 's run
     \<Rightarrow> (error + json list option) option \<times> 's run" where
  "get_branch_permissions_info fuel req fail_when_not_exists repository r =
     after_pages (\<lambda>restrictions st.
         if st = 200 then Inr (Some restrictions)
         else if st = 404
           then (if fail_when_not_exists
                 then Inl (FailJson ''The restriction could not be found'') else Inr None)
         else Inl (FailJson ''Failed to retrieve restriction which matches the supplied project and/or repository: {info}''))
       (page_loop fuel req
          (\<lambda>nextPageStart. paged_url (branch_permissions_endpoint repository) (JInt 0))
          ''values'' [] (JInt 0) r)"

definition get_webhooks_info ::
  "nat \<Rightarrow> 's requester \<Rightarrow> bool \<Rightarrow> 's run \<Rightarrow> (error + json list option) option \<times> 's run" where
  "get_webhooks_info fuel req fail_when_not_exists r =
     after_pages (\<lambda>webhooks st.
         if st = 200 \<or> st = 201 then Inr (Some webhooks)
         else if st = 401
           then Inl (FailJson ''The currently authenticated user has insufficient permissions to read `{repositorySlug}` repository.'')
         else if st = 404
           then (if fail_when_not_exists
                 then Inl (FailJson ''`{repositorySlug}` repository does not exist.'') else Inr None)
         else Inl (FailJson ''Failed to retrieve branches data which matches the supplied projectKey `{projectKey}` and repositorySlug `{repositorySlug}`: {info}''))
       (page_loop fuel req (paged_url ''webhooks'') ''values'' [] (JInt 0) r)"

definition get_pull_request_info ::
  "nat \<Rightarrow> 's requester \<Rightarrow> bool \<Rightarrow> 's run \<Rightarrow> (error + json list option) option \<times> 's run" where
  "get_pull_request_info fuel req fail_when_not_exists r =
     after_pages (\<lambda>pulls st.
         if st = 200 \<or> st = 201 then Inr (Some pulls)
         else if st = 401
           then Inl (FailJson ''The currently authenticated user has insufficient permissions to read `{repositorySlug}` repository.'')
         else if st = 404
           then (if fail_when_not_exists
                 then Inl (FailJson ''`{repositorySlug}` repository does not exist.'') else Inr None)
         else Inl (FailJson ''Failed to retrieve branches data which matches the supplied projectKey `{projectKey}` and repositorySlug `{repositorySlug}`: {info}''))
       (page_loop fuel req (paged_url ''pulls'') ''values'' [] (JInt 0) r)"



section \<open>The file listing of \<open>bitbucket_find\<close>: \<open>get_list_of_files\<close>\<close>

text \<open>
  bitbucket_find.py lines 248-286. Here the status checks are inside the loop. The module
  imports \<open>re\<close>, \<open>AnsibleModule\<close>, \<open>BitbucketHelper\<close> and \<open>string_types\<close> only (lines
  197-201): the name \<open>AnsibleError\<close> is not defined in it, so each of its three
  \<open>raise AnsibleError(...)\<close> statements raises \<open>NameError\<close> when it is reached.
\<close>

fun get_list_of_files ::
  "nat \<Rightarrow> 's requester \<Rightarrow> json list \<Rightarrow> json \<Rightarrow> 's run \<Rightarrow> (error + json list) option \<times> 's run" where
  "get_list_of_files 0 req filelist nextPageStart r = (None, r)"
| "get_list_of_files (Suc fuel) req filelist nextPageStart r =
     (case call req (get_of (paged_url ''repos-files'' nextPageStart)) r of
        (Inl e, r') \<Rightarrow> (Some (Inl e), r')
      | (Inr (i, content), r') \<Rightarrow>
          (case bindE (info_status i) (\<lambda>st.
                  bindE (if st = 200 then bindE (py_getitem (JObj content) ''values'') (list_extend filelist)
                         else Inr filelist) (\<lambda>filelist'.
                  if st = 400 then Inl (NameError ''AnsibleError'')
                  else if st = 404 then Inl (NameError ''AnsibleError'')
                  else if st \<noteq> 200 then Inl (NameError ''AnsibleError'')
                  else Inr filelist')) of
             Inl e \<Rightarrow> (Some (Inl e), r')
           | Inr filelist' \<Rightarrow>
               (case fmlookup content ''isLastPage'' of
                  None \<Rightarrow> (Some (Inr filelist'), r')
                | Some isLastPage \<Rightarrow>
                    (if truthy isLastPage then (Some (Inr filelist'), r')
                     else get_list_of_files fuel req filelist'
                            (case fmlookup content ''nextPageStart'' of
                               None \<Rightarrow> nextPageStart | Some c \<Rightarrow> c) r'))))"

section \<open>The file listing of the \<open>bitbucket_fileglob\<close> lookup\<close>

text \<open>
  The lookup plugin has a request executor of its own (bitbucket_fileglob.py lines
  293-331) over its own \<open>fetch_url\<close>, which returns the response, an error (any HTTP
  error status is one) and \<open>info\<close>, here always a dict. It retries while \<open>error\<close> is set.
  \<open>content\<close> is whatever \<open>json.loads\<close> returns, not necessarily a dict.
\<close>

type_synonym lookup_fetched = "body option \<times> string option \<times> info"

type_synonym 'w lookup_fetcher = "api_url \<Rightarrow> 'w \<Rightarrow> lookup_fetched \<times> 'w"

function lookup_request_loop ::
  "'w lookup_fetcher \<Rightarrow> int \<Rightarrow> int \<Rightarrow> api_url \<Rightarrow> int \<Rightarrow> lookup_fetched option \<Rightarrow> 'w world
     \<Rightarrow> (error + lookup_fetched option) \<times> 'w world" where
  "lookup_request_loop fetch_url max_retries secs u iretries prev w =
     (if iretries \<le> max_retries then
        (case fetch_url u (snd w) of (got, s) \<Rightarrow>
           (if fst (snd got) = None
            then (Inr (Some got), (fst w @ [Fetch (get_of u)], s))
            else (case time_sleep secs (fst w @ [Fetch (get_of u)], s) of
                    (Inl e, w') \<Rightarrow> (Inl e, w')
                  | (Inr x, w') \<Rightarrow>
                      lookup_request_loop fetch_url max_retries secs u (iretries + 1) (Some got) w')))
      else (Inr prev, w))"
  by pat_completeness auto
termination
  by (relation "measure (\<lambda>(f, max_retries, secs, u, iretries, prev, w). nat (max_retries + 1 - iretries))")
     auto

declare lookup_request_loop.simps [simp del]

definition lookup_parse_body :: "body option \<Rightarrow> json" where
  "lookup_parse_body response =
     (case response of
        None \<Rightarrow> JObj fmempty
      | Some NoBody \<Rightarrow> JObj fmempty
      | Some (JsonBody js) \<Rightarrow> js
      | Some (TextBody text) \<Rightarrow> JObj (fmupd ''content'' (JStr text) fmempty))"

definition lookup_request ::
  "'w lookup_fetcher \<Rightarrow> params \<Rightarrow> api_url \<Rightarrow> 'w world \<Rightarrow> (error + info \<times> json) \<times> 'w world" where
  "lookup_request fetch_url p u w =
     (case lookup_request_loop fetch_url (retries p) (sleep p) u 1 None w of
        (Inl e, w') \<Rightarrow> (Inl e, w')
      | (Inr None, w') \<Rightarrow> (Inl (UnboundLocalError ''response''), w')
      | (Inr (Some (response, err, i)), w') \<Rightarrow> (Inr (i, lookup_parse_body response), w'))"

text \<open>\<open>key in content\<close> for a string key: dict membership, list membership, substring.\<close>

fun sublist_at :: "string \<Rightarrow> string \<Rightarrow> bool" where
  "sublist_at k [] = (k = [])"
| "sublist_at k (c # cs) = (take (length k) (c # cs) = k \<or> sublist_at k cs)"

fun py_in :: "string \<Rightarrow> json \<Rightarrow> error + bool" where
  "py_in k (JObj m) = Inr (fmlookup m k \<noteq> None)"
| "py_in k (JList xs) = Inr (JStr k \<in> set xs)"
| "py_in k (JStr s) = Inr (sublist_at k s)"
| "py_in k v = Inl (TypeError ''argument is not iterable'')"

text \<open>
  The listing loop of \<open>LookupModule.run\<close> (lines 176-214), inside the \<open>try\<close> of lines
  166-217; \<open>AnsibleError\<close> is imported here.
\<close>

fun fileglob_loop ::
  "nat \<Rightarrow> 'w lookup_fetcher \<Rightarrow> params \<Rightarrow> json list \<Rightarrow> json \<Rightarrow> 'w world
     \<Rightarrow> (error + json list) option \<times> 'w world" where
  "fileglob_loop 0 fetch_url p all_files nextPageStart w = (None, w)"
| "fileglob_loop (Suc fuel) fetch_url p all_files nextPageStart w =
     (case lookup_request fetch_url p (paged_url ''repos-files'' nextPageStart) w of
        (Inl e, w') \<Rightarrow> (Some (Inl e), w')
      | (Inr (i, content), w') \<Rightarrow>
          (case bindE (if status i = 200 then bindE (py_getitem content ''values'') (list_extend all_files)
                       else Inr all_files) (\<lambda>all_files'.
                if status i = 400
                  then Inl (AnsibleError ''The path requested is not a directory at the supplied commit.'')
                else if status i = 404
                  then Inl (AnsibleError ''The specified repository does not exist.'')
                else if status i \<noteq> 200
                  then Inl (AnsibleError ''Failed to retrieve a list of files Bitbucket Server.  : {info}'')
                else bindE (py_in ''isLastPage'' content) (\<lambda>has_last.
                  if has_last then
                    bindE (py_getitem content ''isLastPage'') (\<lambda>isLastPage.
                    bindE (py_in ''nextPageStart'' content) (\<lambda>has_next.
                    bindE (if has_next then py_getitem content ''nextPageStart''
                           else Inr nextPageStart) (\<lambda>nextPageStart'.
                    Inr (all_files', isLastPage, nextPageStart'))))
                  else Inr (all_files', JBool True, nextPageStart))) of
             Inl e \<Rightarrow> (Some (Inl e), w')
           | Inr (all_files', isLastPage, nextPageStart') \<Rightarrow>
               (if truthy isLastPage then (Some (Inr all_files'), w')
                else fileglob_loop fuel fetch_url p all_files' nextPageStart' w')))"



section \<open>Branch permissions: restriction types and matchers\<close>

text \<open>bitbucket_branch_permissions.py lines 389-399.\<close>

definition get_restriction_type :: "string \<Rightarrow> string" where
  "get_restriction_type prevent =
     (if prevent = ''deletion'' then ''no-deletes''
      else if prevent = ''rewriting history'' then ''fast-forward-only''
      else if prevent = ''changes without a pull request'' then ''pull-request-only''
      else if prevent = ''all changes'' then ''read-only''
      else ''unknown-restriction'')"

text \<open>
  Lines 402-452. The three \<open>if\<close> statements run in sequence, each overwriting \<open>matcher\<close>.
  In the third, the condition \<open>(matcher_name == 'development' or 'production')\<close> is Python's
  \<open>or\<close>: the value \<open>True\<close> when the comparison holds, and otherwise the string
  \<open>'production'\<close>, which is then tested for truth.
\<close>

definition matcher_dict :: "string \<Rightarrow> string \<Rightarrow> string \<Rightarrow> string \<Rightarrow> pydict" where
  "matcher_dict displayId ident type_id type_name =
     fmap_of_list
       [(''active'', JBool True),
        (''displayId'', JStr displayId),
        (''id'', JStr ident),
        (''type'', JObj (fmap_of_list [(''id'', JStr type_id), (''name'', JStr type_name)]))]"

definition get_matcher :: "string \<Rightarrow> string \<Rightarrow> pydict" where
  "get_matcher matcher_type matcher_name =
     (let matcher0 = fmempty;
          matcher1 = (if matcher_type = ''branch_name''
                      then matcher_dict matcher_name (''refs/heads/'' @ matcher_name) ''BRANCH'' ''Branch''
                      else matcher0);
          matcher2 = (if matcher_type = ''branch_pattern''
                      then matcher_dict matcher_name matcher_name ''PATTERN'' ''Pattern''
                      else matcher1)
      in if matcher_type = ''branching_model''
         then (if truthy (if matcher_name = ''development'' then JBool True else JStr ''production'')
               then matcher_dict (capitalize matcher_name) matcher_name
                      ''MODEL_BRANCH'' ''Branching model branch''
               else matcher_dict (capitalize matcher_name) (upper matcher_name)
                      ''MODEL_CATEGORY'' ''Branching model category'')
         else matcher2)"

section \<open>Single-object lookups of \<open>BitbucketHelper\<close>\<close>

text \<open>bitbucket.py lines 165-203 and 244-284.\<close>

definition get_project_info ::
  "'s requester \<Rightarrow> bool \<Rightarrow> 's run \<Rightarrow> (error + pydict option) \<times> 's run" where
  "get_project_info req fail_when_not_exists r =
     (case call req (get_of (plain_url ''projects-projectKey'')) r of
        (Inl e, r') \<Rightarrow> (Inl e, r')
      | (Inr (i, content), r') \<Rightarrow>
          (bindE (info_status i) (\<lambda>st.
             if st = 200 then Inr (Some content)
             else if st = 401
               then Inl (FailJson ''The currently authenticated user has insufficient permissions to view `{projectKey}` project.'')
             else if st = 404
               then (if fail_when_not_exists
                     then Inl (FailJson ''`{projectKey}` project does not exist.'') else Inr None)
             else Inl (FailJson ''Failed to retrieve the project data which matches the supplied projectKey `{projectKey}`: {info}'')),
           r'))"

definition get_repository_info ::
  "'s requester \<Rightarrow> bool \<Rightarrow> 's run \<Rightarrow> (error + pydict option) \<times> 's run" where
  "get_repository_info req fail_when_not_exists r =
     (case call req (get_of (plain_url ''repos-repositorySlug'')) r of
        (Inl e, r') \<Rightarrow> (Inl e, r')
      | (Inr (i, content), r') \<Rightarrow>
          (bindE (info_status i) (\<lambda>st.
             if st = 200 then Inr (Some content)
             else if st = 401
               then Inl (FailJson ''The currently authenticated user has insufficient permissions to see `{repositorySlug}` repository.'')
             else if st = 404
               then (if fail_when_not_exists
                     then Inl (FailJson ''`{repositorySlug}` repository does not exist.'') else Inr None)
             else Inl (FailJson ''Failed to retrieve the repository data which matches the supplied projectKey `{projectKey}` and repositorySlug `{repositorySlug}`: {info}'')),
           r'))"

text \<open>
  \<open>set_default_branch\<close> (lines 980-1018) calls \<open>module.fail_json\<close> where the helper's
  module is \<open>self.module\<close>: on any status but 204 the name \<open>module\<close> is undefined.
\<close>

definition set_default_branch ::
  "'s requester \<Rightarrow> string \<Rightarrow> 's run \<Rightarrow> (error + pydict) \<times> 's run" where
  "set_default_branch req branch_arg r =
     (case call req \<lparr>url = plain_url ''branch-default'', http_method = ''PUT'',
                      data = Some (JObj (fmap_of_list [(''id'', JStr (''refs/heads/'' @ branch_arg))]))\<rparr> r of
        (Inl e, r') \<Rightarrow> (Inl e, r')
      | (Inr (i, content), r') \<Rightarrow>
          (bindE (info_status i) (\<lambda>st.
             if st = 204 then Inr content else Inl (NameError ''module'')), r'))"

section \<open>Module parameters and results\<close>

text \<open>
  \<open>module.params\<close> and \<open>module.check_mode\<close>, with the keys the five modules below read.
  Of the branch-permission parameters \<open>branch_name\<close>, \<open>branch_pattern\<close> and
  \<open>branching_model\<close> Ansible's argument validation (\<open>required_one_of\<close>,
  \<open>mutually_exclusive\<close>) lets through exactly one.
\<close>

record exemptions =
  groups :: "string list"
  users :: "string list"
  access_keys :: "string list"

record restriction =
  prevent :: string
  exemptions :: "exemptions option"

datatype branch_selector = BranchName string | BranchPattern string | BranchingModel string

record module_params =
  state :: string
  check_mode :: bool
  repository :: "string option"
  branch :: string
  from_branch :: string
  to_branch :: string
  is_default :: bool
  webhook_name :: string
  webhook_url :: string
  event :: string
  title :: string
  reviewers :: "string list"
  selector :: branch_selector
  restrictions :: "restriction list"

definition opt_str :: "string option \<Rightarrow> json" where
  "opt_str x = (case x of None \<Rightarrow> JNull | Some v \<Rightarrow> JStr v)"

text \<open>
  What \<open>module.exit_json\<close> reports: \<open>changed\<close> and the other keys. The keys that only echo
  module parameters are left out of \<open>returned\<close>.
\<close>

record result =
  changed :: bool
  returned :: pydict

text \<open>
  \<open>not x\<close> for a value that is \<open>None\<close> or a dict, and \<open>any(f(d) for d in xs)\<close>, which stops
  at the first true element, and a list comprehension with a condition, which does not.
\<close>

definition falsy :: "pydict option \<Rightarrow> bool" where
  "falsy x = (case x of None \<Rightarrow> True | Some d \<Rightarrow> \<not> truthy (JObj d))"

definition iter_opt :: "json list option \<Rightarrow> error + json list" where
  "iter_opt x = (case x of None \<Rightarrow> Inl (TypeError ''NoneType object is not iterable'') | Some xs \<Rightarrow> Inr xs)"

fun py_any :: "(json \<Rightarrow> error + bool) \<Rightarrow> json list \<Rightarrow> error + bool" where
  "py_any f [] = Inr False"
| "py_any f (x # xs) = bindE (f x) (\<lambda>b. if b then Inr True else py_any f xs)"

fun mapE :: "('a \<Rightarrow> error + 'b) \<Rightarrow> 'a list \<Rightarrow> error + 'b list" where
  "mapE f [] = Inr []"
| "mapE f (x # xs) = bindE (f x) (\<lambda>y. bindE (mapE f xs) (\<lambda>ys. Inr (y # ys)))"

fun filterE :: "('a \<Rightarrow> error + bool) \<Rightarrow> 'a list \<Rightarrow> error + 'a list" where
  "filterE f [] = Inr []"
| "filterE f (x # xs) =
     bindE (f x) (\<lambda>b. bindE (filterE f xs) (\<lambda>ys. Inr (if b then x # ys else ys)))"

section \<open>\<open>bitbucket_repo\<close>\<close>

text \<open>bitbucket_repo.py: \<open>create_repository\<close>, \<open>delete_repository\<close>, \<open>main\<close> (lines 269-381).\<close>

definition create_repository ::
  "'s requester \<Rightarrow> module_params \<Rightarrow> 's run \<Rightarrow> (error + pydict) \<times> 's run" where
  "create_repository req p r =
     (case call req \<lparr>url = plain_url ''repos'', http_method = ''POST'',
                      data = Some (JObj (fmap_of_list [(''name'', opt_str (repository p))]))\<rparr> r of
        (Inl e, r') \<Rightarrow> (Inl e, r')
      | (Inr (i, content), r') \<Rightarrow>
          (bindE (info_status i) (\<lambda>st.
             if st = 201 then Inr content
             else if st = 400
               then Inl (FailJson ''`{repositorySlug}` repository was not created due to a validation error'')
             else if st = 401
               then Inl (FailJson ''The currently authenticated user has insufficient permissions to create `{repositorySlug}` repository'')
             else if st = 409
               then Inl (FailJson ''A repository with same name ({repositorySlug}) already exists'')
             else Inl (FailJson ''Failed to create repository `{repositorySlug}` in the supplied projectKey `{projectKey}`: {info}'')),
           r'))"

definition delete_repository ::
  "'s requester \<Rightarrow> module_params \<Rightarrow> 's run \<Rightarrow> (error + pydict) \<times> 's run" where
  "delete_repository req p r =
     (case call req \<lparr>url = plain_url ''repos-repositorySlug'', http_method = ''DELETE'',
                      data = None\<rparr> r of
        (Inl e, r') \<Rightarrow> (Inl e, r')
      | (Inr (i, content), r') \<Rightarrow>
          (bindE (info_status i) (\<lambda>st.
             if st = 202 then Inr content
             else if st = 204
               then Inl (FailJson ''`{repositorySlug}` repository does not exist'')
             else if st = 401
               then Inl (FailJson ''The currently authenticated user has insufficient permissions to delete `{repositorySlug}` repository'')
             else Inl (FailJson ''Failed to delete repository `{repositorySlug}` in the supplied projectKey `{projectKey}`: {info}'')),
           r'))"

text \<open>
  \<open>module.exit_json(changed=changed, **content)\<close>: a \<open>content\<close> with a key \<open>changed\<close> gives
  the keyword twice.
\<close>

definition repo_exit_json :: "bool \<Rightarrow> pydict option \<Rightarrow> error + result" where
  "repo_exit_json chg content =
     (case content of
        None \<Rightarrow> Inr \<lparr>changed = chg, returned = fmempty\<rparr>
      | Some c \<Rightarrow>
          (if fmlookup c ''changed'' \<noteq> None
           then Inl (TypeError ''got multiple values for keyword argument changed'')
           else Inr \<lparr>changed = chg, returned = c\<rparr>))"

definition repo_main ::
  "'s requester \<Rightarrow> module_params \<Rightarrow> 's run \<Rightarrow> (error + result) \<times> 's run" where
  "repo_main req p r =
     (case get_repository_info req False r of
        (Inl e, r1) \<Rightarrow> (Inl e, r1)
      | (Inr existing_repository, r1) \<Rightarrow>
          (if falsy existing_repository \<and> state p = ''present'' then
             (if \<not> check_mode p then
                (case create_repository req p r1 of
                   (Inl e, r2) \<Rightarrow> (Inl e, r2)
                 | (Inr content, r2) \<Rightarrow> (repo_exit_json True (Some content), r2))
              else (repo_exit_json True existing_repository, r1))
           else if \<not> falsy existing_repository \<and> state p = ''absent'' then
             (if \<not> check_mode p then
                (case delete_repository req p r1 of
                   (Inl e, r2) \<Rightarrow> (Inl e, r2)
                 | (Inr content, r2) \<Rightarrow> (repo_exit_json True (Some content), r2))
              else (repo_exit_json True existing_repository, r1))
           else (repo_exit_json False existing_repository, r1)))"

section \<open>\<open>bitbucket_branch\<close>\<close>

text \<open>
  bitbucket_branch.py: \<open>create_branch\<close> (lines 230-265) and \<open>main\<close> (lines 344-367). In
  \<open>create_branch\<close> the 404 message is formatted with \<open>repository\<close>, a name the function
  does not have. \<open>state\<close> has the single choice \<open>present\<close>; the deletion of a branch is
  commented out in the source.
\<close>

definition create_branch ::
  "'s requester \<Rightarrow> module_params \<Rightarrow> 's run \<Rightarrow> (error + pydict) \<times> 's run" where
  "create_branch req p r =
     (case call req \<lparr>url = plain_url ''branches'', http_method = ''POST'',
                      data = Some (JObj (fmap_of_list
                        [(''name'', JStr (branch p)),
                         (''startPoint'', JStr (''refs/heads/'' @ from_branch p))]))\<rparr> r of
        (Inl e, r') \<Rightarrow> (Inl e, r')
      | (Inr (i, content), r') \<Rightarrow>
          (bindE (info_status i) (\<lambda>st.
             if st = 200 then Inr content
             else if st = 401
               then Inl (FailJson ''The currently authenticated user has insufficient permissions to write to `{repositorySlug}` repository'')
             else if st = 404 then Inl (NameError ''repository'')
             else Inl (FailJson ''Failed to create `{branch}` branch in the supplied `{repositorySlug}` repository and `{projectKey}` project: {info}'')),
           r'))"

definition branch_exists :: "string \<Rightarrow> json \<Rightarrow> error + bool" where
  "branch_exists name d =
     bindE (py_get d ''displayId'' (JStr ''non_existing_branch'')) (\<lambda>v. Inr (v = JStr name))"

definition branch_exists_not_default :: "string \<Rightarrow> json \<Rightarrow> error + bool" where
  "branch_exists_not_default name d =
     bindE (py_get d ''displayId'' (JStr ''non_existing_branch'')) (\<lambda>v.
       if v = JStr name
       then bindE (py_get d ''isDefault'' (JBool False)) (\<lambda>dflt. Inr (\<not> truthy dflt))
       else Inr False)"

text \<open>
  The two \<open>if\<close> statements of \<open>main\<close> after the listing, on the listing's result: the
  first creates the branch (and makes it the default when asked), the second makes an
  existing branch the default. Both read the same \<open>existing_branches\<close>.
\<close>

definition branch_reconcile ::
  "'s requester \<Rightarrow> module_params \<Rightarrow> json list option \<Rightarrow> 's run \<Rightarrow> (error + result) \<times> 's run" where
  "branch_reconcile req p existing_branches r =
     (case (if state p = ''present''
            then bindE (iter_opt existing_branches) (\<lambda>xs.
                   bindE (py_any (branch_exists (branch p)) xs) (\<lambda>b. Inr (\<not> b)))
            else Inr False) of
        Inl e \<Rightarrow> (Inl e, r)
      | Inr missing \<Rightarrow>
          (case (if missing \<and> \<not> check_mode p then
                   (case create_branch req p r of
                      (Inl e, r1) \<Rightarrow> (Inl e, r1)
                    | (Inr content, r1) \<Rightarrow>
                        (if is_default p then
                           (case set_default_branch req (branch p) r1 of
                              (Inl e, r2) \<Rightarrow> (Inl e, r2)
                            | (Inr c, r2) \<Rightarrow> (Inr (JObj content), r2))
                         else (Inr (JObj content), r1)))
                 else (Inr (JObj fmempty), r)) of
             (Inl e, r') \<Rightarrow> (Inl e, r')
           | (Inr js, r') \<Rightarrow>
               (case (if state p = ''present''
                      then bindE (iter_opt existing_branches) (\<lambda>xs.
                             bindE (py_any (branch_exists_not_default (branch p)) xs) (\<lambda>b.
                               Inr (b \<and> is_default p)))
                      else Inr False) of
                  Inl e \<Rightarrow> (Inl e, r')
                | Inr promote \<Rightarrow>
                    (if promote \<and> \<not> check_mode p then
                       (case set_default_branch req (branch p) r' of
                          (Inl e, r3) \<Rightarrow> (Inl e, r3)
                        | (Inr c, r3) \<Rightarrow>
                            (Inr \<lparr>changed = True, returned = fmap_of_list [(''json'', js)]\<rparr>, r3))
                     else (Inr \<lparr>changed = missing \<or> promote,
                                 returned = fmap_of_list [(''json'', js)]\<rparr>, r')))))"


section \<open>\<open>bitbucket_webhook\<close>\<close>

text \<open>
  bitbucket_webhook.py: \<open>create_webhook\<close> (lines 136-165) and \<open>main\<close> (lines 204-226).
  \<open>state\<close> accepts \<open>absent\<close>, but \<open>main\<close> has no branch for it.
\<close>

fun split_on :: "char \<Rightarrow> string \<Rightarrow> string list" where
  "split_on sep [] = [[]]"
| "split_on sep (c # cs) =
     (if c = sep then [] # split_on sep cs
      else (case split_on sep cs of [] \<Rightarrow> [[c]] | w # ws \<Rightarrow> (c # w) # ws))"

definition create_webhook ::
  "'s requester \<Rightarrow> module_params \<Rightarrow> 's run \<Rightarrow> (error + pydict option) \<times> 's run" where
  "create_webhook req p r =
     (case call req \<lparr>url = plain_url ''webhooks'', http_method = ''POST'',
                      data = Some (JObj (fmap_of_list
                        [(''name'', JStr (webhook_name p)),
                         (''url'', JStr (webhook_url p)),
                         (''events'', JList (map JStr (split_on (CHR '','') (event p)))),
                         (''active'', JStr ''true'')]))\<rparr> r of
        (Inl e, r') \<Rightarrow> (Inl e, r')
      | (Inr (i, content), r') \<Rightarrow>
          (bindE (info_status i) (\<lambda>st.
             if st = 201 then Inr (Some content)
             else if st = 401
               then Inl (FailJson ''The currently authenticated user has insufficient permissions to write to `{repositorySlug}` repository'')
             else if st = 404 then Inl (NameError ''repository'')
             else Inr None),
           r'))"

definition opt_dict :: "pydict option \<Rightarrow> json" where
  "opt_dict x = (case x of None \<Rightarrow> JNull | Some d \<Rightarrow> JObj d)"

definition webhook_named :: "string \<Rightarrow> json \<Rightarrow> error + bool" where
  "webhook_named name d =
     bindE (py_get d ''name'' (JStr ''non_existing_webhook'')) (\<lambda>v. Inr (v = JStr name))"

definition webhook_reconcile ::
  "'s requester \<Rightarrow> module_params \<Rightarrow> json list option \<Rightarrow> 's run \<Rightarrow> (error + result) \<times> 's run" where
  "webhook_reconcile req p existing_webhooks r =
     (case (if state p = ''present''
            then bindE (iter_opt existing_webhooks) (\<lambda>xs.
                   bindE (py_any (webhook_named (webhook_name p)) xs) (\<lambda>b. Inr (\<not> b)))
            else Inr False) of
        Inl e \<Rightarrow> (Inl e, r)
      | Inr missing \<Rightarrow>
          (if missing then
             (if \<not> check_mode p then
                (case create_webhook req p r of
                   (Inl e, r1) \<Rightarrow> (Inl e, r1)
                 | (Inr content, r1) \<Rightarrow>
                     (Inr \<lparr>changed = True, returned = fmap_of_list [(''json'', opt_dict content)]\<rparr>, r1))
              else (Inr \<lparr>changed = True, returned = fmap_of_list [(''json'', JObj fmempty)]\<rparr>, r))
           else (Inr \<lparr>changed = False, returned = fmap_of_list [(''json'', JObj fmempty)]\<rparr>, r)))"

text \<open>
  The checks that open \<open>main\<close> in the webhook and pull-request modules: project and
  repository must exist.
\<close>

definition project_and_repository ::
  "'s requester \<Rightarrow> 's run \<Rightarrow> (error + unit) \<times> 's run" where
  "project_and_repository req r =
     (case get_project_info req False r of
        (Inl e, r1) \<Rightarrow> (Inl e, r1)
      | (Inr project, r1) \<Rightarrow>
          (if falsy project then (Inl (FailJson ''Project `{projectKey}` does not exist.''), r1)
           else (case get_repository_info req False r1 of
                   (Inl e, r2) \<Rightarrow> (Inl e, r2)
                 | (Inr repo, r2) \<Rightarrow>
                     (if falsy repo
                      then (Inl (FailJson ''Repository `{repositorySlug}` does not exist.''), r2)
                      else (Inr (), r2)))))"

definition webhook_main ::
  "nat \<Rightarrow> 's requester \<Rightarrow> module_params \<Rightarrow> 's run \<Rightarrow> (error + result) option \<times> 's run" where
  "webhook_main fuel req p r =
     (case project_and_repository req r of
        (Inl e, r1) \<Rightarrow> (Some (Inl e), r1)
      | (Inr u, r1) \<Rightarrow>
          (case get_webhooks_info fuel req False r1 of
             (None, r2) \<Rightarrow> (None, r2)
           | (Some (Inl e), r2) \<Rightarrow> (Some (Inl e), r2)
           | (Some (Inr existing_webhooks), r2) \<Rightarrow>
               (case webhook_reconcile req p existing_webhooks r2 of (res, r3) \<Rightarrow> (Some res, r3))))"

section \<open>\<open>bitbucket_pull_request\<close>\<close>

text \<open>
  \<open>str.strip\<close> and \<open>BitbucketHelper.listify_comma_sep_strings_in_list\<close> (bitbucket.py
  lines 142-163), used to build the reviewers of a new pull request. The whitespace that
  \<open>strip\<close> removes is, below 256: the space, 9-13, 28-31, 133 and 160.
\<close>

definition is_space :: "char \<Rightarrow> bool" where
  "is_space c =
     (let n = (of_char c :: nat)
      in n = 32 \<or> (9 \<le> n \<and> n \<le> 13) \<or> (28 \<le> n \<and> n \<le> 31) \<or> n = 133 \<or> n = 160)"

definition strip :: "string \<Rightarrow> string" where
  "strip s = rev (dropWhile is_space (rev (dropWhile is_space s)))"

definition listify_comma_sep_strings_in_list :: "string list \<Rightarrow> string list" where
  "listify_comma_sep_strings_in_list some_list =
     (let remove_from_original_list = filter (\<lambda>element. CHR '','' \<in> set element) some_list;
          new_list = concat (map (\<lambda>element. map strip (split_on (CHR '','') element))
                              remove_from_original_list);
          some_list' = fold remove1 remove_from_original_list some_list @ new_list
      in if some_list' = [[]] then [] else some_list')"

text \<open>
  bitbucket_pull_request.py: \<open>create_pull_request\<close> (lines 151-228),
  \<open>delete_pull_request\<close> (lines 230-260), \<open>main\<close> (lines 298-331). The 404 branches read
  an undefined name and a missing parameter; statuses without a branch return \<open>None\<close>.
\<close>

definition ref_dict :: "module_params \<Rightarrow> string \<Rightarrow> json" where
  "ref_dict p name =
     JObj (fmap_of_list
       [(''id'', JStr (''refs/heads/'' @ name)),
        (''repository'', JObj (fmap_of_list
           [(''slug'', opt_str (repository p)),
            (''name'', JStr ''null''),
            (''project'', JObj (fmap_of_list [(''key'', JStr ''{project_key}'')]))]))])"

definition create_pull_request ::
  "'s requester \<Rightarrow> module_params \<Rightarrow> 's run \<Rightarrow> (error + pydict option) \<times> 's run" where
  "create_pull_request req p r =
     (let reviewers_data =
            map (\<lambda>rv. JObj (fmap_of_list
                   [(''user'', JObj (fmap_of_list [(''name'', JStr (upper rv))]))]))
              (listify_comma_sep_strings_in_list (map strip (reviewers p)))
      in case call req \<lparr>url = plain_url ''pulls'', http_method = ''POST'',
                      data = Some (JObj (fmap_of_list
                        [(''title'', JStr (title p)),
                         (''description'', JStr (title p)),
                         (''state'', JStr ''open''),
                         (''open'', JStr ''true''),
                         (''closed'', JStr ''false''),
                         (''fromRef'', ref_dict p (from_branch p)),
                         (''toRef'', ref_dict p (to_branch p)),
                         (''locked'', JStr ''false''),
                         (''reviewers'', JList reviewers_data)]))\<rparr> r of
        (Inl e, r') \<Rightarrow> (Inl e, r')
      | (Inr (i, content), r') \<Rightarrow>
          (bindE (info_status i) (\<lambda>st.
             if st = 201 then Inr (Some content)
             else if st = 401
               then Inl (FailJson ''The currently authenticated user has insufficient permissions to write to `{repositorySlug}` repository'')
             else if st = 404 then Inl (NameError ''repository'')
             else if st = 409 then Inl (FailJson ''Wrong reviewer provided.'')
             else Inr None),
           r'))"

definition delete_spec :: "json \<Rightarrow> json \<Rightarrow> request_spec" where
  "delete_spec pull_id version =
     \<lparr>url = \<lparr>endpoint = ''pulls-delete'', path_id = Some pull_id, start = None\<rparr>,
      http_method = ''DELETE'',
      data = Some (JObj (fmap_of_list [(''version'', version)]))\<rparr>"

definition delete_pull_request ::
  "'s requester \<Rightarrow> json \<Rightarrow> json \<Rightarrow> 's run \<Rightarrow> (error + pydict option) \<times> 's run" where
  "delete_pull_request req pull_id version r =
     (case call req (delete_spec pull_id version) r of
        (Inl e, r') \<Rightarrow> (Inl e, r')
      | (Inr (i, content), r') \<Rightarrow>
          (bindE (info_status i) (\<lambda>st.
             if st = 204 then Inr (Some content)
             else if st = 401
               then Inl (FailJson ''The currently authenticated user has insufficient permissions to write to `{repositorySlug}` repository'')
             else if st = 404 then Inl (KeyError ''pull_id'')
             else if st = 409
               then Inl (FailJson ''You are attempting to modify a pull request based on out-of-date information. Wrong version provided.'')
             else Inr None),
           r'))"

text \<open>\<open>d.get(key, 'non_existing_...')['displayId'] == name\<close>.\<close>

definition ref_is :: "string \<Rightarrow> string \<Rightarrow> string \<Rightarrow> json \<Rightarrow> error + bool" where
  "ref_is key dflt name d =
     bindE (py_get d key (JStr dflt)) (\<lambda>ref.
       bindE (py_getitem ref ''displayId'') (\<lambda>v. Inr (v = JStr name)))"

definition pull_matches :: "module_params \<Rightarrow> json \<Rightarrow> error + bool" where
  "pull_matches p d =
     bindE (ref_is ''toRef'' ''non_existing_pull_to_branch'' (to_branch p) d) (\<lambda>b.
       if b then ref_is ''fromRef'' ''non_existing_pull_to_branch'' (from_branch p) d
       else Inr False)"

text \<open>
  The deleting loop (lines 324-329) over the existing pull requests; \<open>acc\<close> is
  \<open>result['changed']\<close> and \<open>result['json']\<close> so far.
\<close>

fun delete_pulls ::
  "'s requester \<Rightarrow> module_params \<Rightarrow> json list \<Rightarrow> bool \<times> json \<Rightarrow> 's run
     \<Rightarrow> (error + bool \<times> json) \<times> 's run" where
  "delete_pulls req p [] acc r = (Inr acc, r)"
| "delete_pulls req p (d # ds) acc r =
     (case pull_matches p d of
        Inl e \<Rightarrow> (Inl e, r)
      | Inr False \<Rightarrow> delete_pulls req p ds acc r
      | Inr True \<Rightarrow>
          (if \<not> check_mode p then
             (case bindE (py_get d ''id'' JNull) (\<lambda>pull_id.
                     bindE (py_get d ''version'' JNull) (\<lambda>version. Inr (pull_id, version))) of
                Inl e \<Rightarrow> (Inl e, r)
              | Inr (pull_id, version) \<Rightarrow>
                  (case delete_pull_request req pull_id version r of
                     (Inl e, r1) \<Rightarrow> (Inl e, r1)
                   | (Inr content, r1) \<Rightarrow> delete_pulls req p ds (True, opt_dict content) r1))
           else delete_pulls req p ds (True, snd acc) r))"

text \<open>
  The condition of line 314-318: the state is \<open>present\<close> and no existing pull request
  comes from \<open>from_branch\<close>, or none goes to \<open>to_branch\<close>.
\<close>

definition create_needed :: "module_params \<Rightarrow> json list option \<Rightarrow> error + bool" where
  "create_needed p existing_pulls =
     (if state p = ''present''
      then bindE (iter_opt existing_pulls) (\<lambda>xs.
             bindE (py_any (ref_is ''fromRef'' ''non_existing_pull_from_branch'' (from_branch p)) xs)
               (\<lambda>has_from.
                  if \<not> has_from then Inr True
                  else bindE (py_any (ref_is ''toRef'' ''non_existing_pull_to_branch'' (to_branch p)) xs)
                         (\<lambda>has_to. Inr (\<not> has_to))))
      else Inr False)"

definition pull_request_reconcile ::
  "'s requester \<Rightarrow> module_params \<Rightarrow> json list option \<Rightarrow> 's run \<Rightarrow> (error + result) \<times> 's run" where
  "pull_request_reconcile req p existing_pulls r =
     (case create_needed p existing_pulls of
        Inl e \<Rightarrow> (Inl e, r)
      | Inr True \<Rightarrow>
          (if \<not> check_mode p then
             (case create_pull_request req p r of
                (Inl e, r1) \<Rightarrow> (Inl e, r1)
              | (Inr content, r1) \<Rightarrow>
                  (Inr \<lparr>changed = True, returned = fmap_of_list [(''json'', opt_dict content)]\<rparr>, r1))
           else (Inr \<lparr>changed = True, returned = fmap_of_list [(''json'', JObj fmempty)]\<rparr>, r))
      | Inr False \<Rightarrow>
          (case existing_pulls of
             Some (d # ds) \<Rightarrow>
               (if state p = ''absent'' then
                  (case delete_pulls req p (d # ds) (False, JObj fmempty) r of
                     (Inl e, r1) \<Rightarrow> (Inl e, r1)
                   | (Inr (chg, js), r1) \<Rightarrow>
                       (Inr \<lparr>changed = chg, returned = fmap_of_list [(''json'', js)]\<rparr>, r1))
                else (Inr \<lparr>changed = False, returned = fmap_of_list [(''json'', JObj fmempty)]\<rparr>, r))
           | _ \<Rightarrow> (Inr \<lparr>changed = False, returned = fmap_of_list [(''json'', JObj fmempty)]\<rparr>, r)))"

definition pull_request_main ::
  "nat \<Rightarrow> 's requester \<Rightarrow> module_params \<Rightarrow> 's run \<Rightarrow> (error + result) option \<times> 's run" where
  "pull_request_main fuel req p r =
     (case project_and_repository req r of
        (Inl e, r1) \<Rightarrow> (Some (Inl e), r1)
      | (Inr u, r1) \<Rightarrow>
          (case get_pull_request_info fuel req False r1 of
             (None, r2) \<Rightarrow> (None, r2)
           | (Some (Inl e), r2) \<Rightarrow> (Some (Inl e), r2)
           | (Some (Inr existing_pulls), r2) \<Rightarrow>
               (case pull_request_reconcile req p existing_pulls r2 of
                  (res, r3) \<Rightarrow> (Some res, r3))))"

section \<open>\<open>bitbucket_branch_permissions\<close>\<close>

text \<open>
  bitbucket_branch_permissions.py: \<open>create_branch_permission\<close> (lines 306-350) and
  \<open>delete_branch_permission\<close> (lines 353-386).
\<close>

definition create_branch_permission ::
  "'s requester \<Rightarrow> string option \<Rightarrow> string \<Rightarrow> pydict \<Rightarrow> string list \<Rightarrow> string list \<Rightarrow> string list
     \<Rightarrow> 's run \<Rightarrow> (error + pydict) \<times> 's run" where
  "create_branch_permission req repo restriction_type matcher usrs grps accessKeys r =
     (case call req
             \<lparr>url = plain_url (case repo of None \<Rightarrow> ''branch-permissions-projects''
                                | Some slug \<Rightarrow> ''branch-permissions-repos''),
              http_method = ''POST'',
              data = Some (JObj (fmap_of_list
                [(''type'', JStr restriction_type),
                 (''matcher'', JObj matcher),
                 (''users'', JList (map JStr usrs)),
                 (''groups'', JList (map JStr grps)),
                 (''accessKeys'', JList (map JStr accessKeys))]))\<rparr> r of
        (Inl e, r') \<Rightarrow> (Inl e, r')
      | (Inr (i, content), r') \<Rightarrow>
          (bindE (info_status i) (\<lambda>st.
             if st = 200 then Inr content
             else if st = 400 then Inl (FailJson ''The request has failed validation'')
             else if st = 401
               then Inl (FailJson ''The currently authenticated user has insufficient permissions to perform this operation.'')
             else Inl (FailJson ''Failed to create branch permissions in the supplied project and/or repository: {info}'')),
           r'))"

definition delete_restriction_spec :: "string option \<Rightarrow> json \<Rightarrow> request_spec" where
  "delete_restriction_spec repo restriction_id =
     \<lparr>url = \<lparr>endpoint = (case repo of None \<Rightarrow> ''branch-permissions-projects/{id}''
                          | Some slug \<Rightarrow> ''branch-permissions-repos/{id}''),
             path_id = Some restriction_id, start = None\<rparr>,
      http_method = ''DELETE'', data = None\<rparr>"

definition delete_branch_permission ::
  "'s requester \<Rightarrow> string option \<Rightarrow> json \<Rightarrow> 's run \<Rightarrow> (error + pydict) \<times> 's run" where
  "delete_branch_permission req repo restriction_id r =
     (case call req (delete_restriction_spec repo restriction_id) r of
        (Inl e, r') \<Rightarrow> (Inl e, r')
      | (Inr (i, content), r') \<Rightarrow>
          (bindE (info_status i) (\<lambda>st.
             if st = 204 then Inr content
             else Inl (FailJson ''Failed to delete branch permissions in the supplied project and/or repository: {info}'')),
           r'))"

text \<open>
  The condition of the comprehension \<open>found\<close> (lines 555-561) for one existing
  restriction \<open>perm\<close>: six comparisons joined by \<open>and\<close>, evaluated left to right until one
  fails.
\<close>

fun py_lower :: "json \<Rightarrow> error + json" where
  "py_lower (JStr s) = Inr (JStr (lower s))"
| "py_lower v = Inl (AttributeError ''lower'')"

definition restriction_matches ::
  "pydict \<Rightarrow> string \<Rightarrow> string list \<Rightarrow> string list \<Rightarrow> string list \<Rightarrow> string \<Rightarrow> json
     \<Rightarrow> error + bool" where
  "restriction_matches matcher restriction_type exemptions_groups exemptions_users
       exemptions_access_keys scope_type perm =
     bindE (py_get perm ''matcher'' (JObj fmempty)) (\<lambda>m.
     if m \<noteq> JObj matcher then Inr False else
     bindE (py_get perm ''type'' (JStr ''no_type'')) (\<lambda>t.
     if t \<noteq> JStr restriction_type then Inr False else
     bindE (py_get perm ''groups'' (JList [])) (\<lambda>g.
     bindE (py_iter g) (\<lambda>gs.
     bindE (mapE py_lower gs) (\<lambda>gl.
     if gl \<noteq> map (\<lambda>x. JStr (lower x)) exemptions_groups then Inr False else
     bindE (py_get perm ''users'' (JList [])) (\<lambda>u.
     bindE (py_iter u) (\<lambda>us.
     bindE (mapE (\<lambda>x. py_getitem x ''name'') us) (\<lambda>names.
     if names \<noteq> map (\<lambda>x. JStr (upper x)) exemptions_users then Inr False else
     bindE (py_get perm ''accessKeys'' (JList [])) (\<lambda>k.
     if k \<noteq> JList (map JStr exemptions_access_keys) then Inr False else
     bindE (py_get perm ''scope'' (JObj fmempty)) (\<lambda>sc.
     bindE (py_get sc ''type'' (JStr ''no_type'')) (\<lambda>st.
     Inr (st = JStr scope_type))))))))))))"

definition selected_matcher :: "branch_selector \<Rightarrow> pydict" where
  "selected_matcher sel =
     (case sel of
        BranchName n \<Rightarrow> get_matcher ''branch_name'' n
      | BranchPattern n \<Rightarrow> get_matcher ''branch_pattern'' n
      | BranchingModel n \<Rightarrow> get_matcher ''branching_model'' n)"

definition scope_type_of :: "module_params \<Rightarrow> string" where
  "scope_type_of p = (case repository p of None \<Rightarrow> ''PROJECT'' | Some slug \<Rightarrow> ''REPOSITORY'')"

definition exemptions_of :: "restriction \<Rightarrow> exemptions" where
  "exemptions_of rs =
     (case exemptions rs of
        None \<Rightarrow> \<lparr>groups = [], users = [], access_keys = []\<rparr>
      | Some ex \<Rightarrow> ex)"

definition found_for :: "module_params \<Rightarrow> json list option \<Rightarrow> restriction \<Rightarrow> error + json list" where
  "found_for p existing_branch_permissions rs =
     bindE (iter_opt existing_branch_permissions)
       (filterE (restriction_matches (selected_matcher (selector p))
                   (get_restriction_type (prevent rs))
                   (groups (exemptions_of rs)) (users (exemptions_of rs))
                   (access_keys (exemptions_of rs)) (scope_type_of p)))"

text \<open>
  The loop over the supplied restrictions (lines 545-579). \<open>acc\<close> is \<open>result['changed']\<close>
  and \<open>result['results']\<close> so far. The list of existing restrictions is the one fetched
  before the loop; in the deleting branch only \<open>found[0]\<close> is used.
\<close>

fun restrictions_loop ::
  "'s requester \<Rightarrow> module_params \<Rightarrow> json list option \<Rightarrow> restriction list \<Rightarrow> bool \<times> json list
     \<Rightarrow> 's run \<Rightarrow> (error + bool \<times> json list) \<times> 's run" where
  "restrictions_loop req p existing [] acc r = (Inr acc, r)"
| "restrictions_loop req p existing (rs # rest) acc r =
     (case found_for p existing rs of
        Inl e \<Rightarrow> (Inl e, r)
      | Inr [] \<Rightarrow>
          (if state p = ''present'' then
             (if \<not> check_mode p then
                (case create_branch_permission req (repository p) (get_restriction_type (prevent rs))
                        (selected_matcher (selector p)) (users (exemptions_of rs))
                        (groups (exemptions_of rs)) (access_keys (exemptions_of rs)) r of
                   (Inl e, r1) \<Rightarrow> (Inl e, r1)
                 | (Inr content, r1) \<Rightarrow>
                     restrictions_loop req p existing rest (True, snd acc @ [JObj content]) r1)
              else restrictions_loop req p existing rest (True, snd acc) r)
           else restrictions_loop req p existing rest acc r)
      | Inr (first # others) \<Rightarrow>
          (if state p = ''absent'' then
             (if \<not> check_mode p then
                (case py_get first ''id'' (JStr ''none'') of
                   Inl e \<Rightarrow> (Inl e, r)
                 | Inr restriction_id \<Rightarrow>
                     (case delete_branch_permission req (repository p) restriction_id r of
                        (Inl e, r1) \<Rightarrow> (Inl e, r1)
                      | (Inr delete_result, r1) \<Rightarrow>
                          restrictions_loop req p existing rest
                            (True, snd acc @ [JObj (fmupd ''status'' (JStr ''deleted'')
                                                (fmupd ''restriction'' first delete_result))]) r1))
              else restrictions_loop req p existing rest (True, snd acc) r)
           else restrictions_loop req p existing rest acc r))"

definition branch_permissions_result :: "bool \<Rightarrow> json list \<Rightarrow> string list \<Rightarrow> result" where
  "branch_permissions_result chg results messages =
     \<lparr>changed = chg,
      returned = fmap_of_list [(''results'', JList results), (''messages'', JList (map JStr messages))]\<rparr>"

definition branch_permissions_reconcile ::
  "'s requester \<Rightarrow> module_params \<Rightarrow> json list option \<Rightarrow> 's run \<Rightarrow> (error + result) \<times> 's run" where
  "branch_permissions_reconcile req p existing_branch_permissions r =
     (case restrictions_loop req p existing_branch_permissions (restrictions p) (False, []) r of
        (Inl e, r1) \<Rightarrow> (Inl e, r1)
      | (Inr (chg, results), r1) \<Rightarrow> (Inr (branch_permissions_result chg results []), r1))"


section \<open>Mutating requests and the expected deletions\<close>

text \<open>A request is mutating when its method is not \<open>GET\<close> (the modules use POST, PUT, DELETE).\<close>

definition mutating :: "request_spec \<Rightarrow> bool" where
  "mutating spec = (http_method spec \<noteq> ''GET'')"

text \<open>
  The delete request for one existing pull request \<open>d\<close>, and for the first of the existing
  restrictions that match one supplied restriction: what the deleting branches of the two
  modules are compared with.
\<close>

definition pull_delete_spec :: "json \<Rightarrow> request_spec" where
  "pull_delete_spec d =
     (case d of
        JObj m \<Rightarrow>
          delete_spec (case fmlookup m ''id'' of None \<Rightarrow> JNull | Some v \<Rightarrow> v)
                      (case fmlookup m ''version'' of None \<Rightarrow> JNull | Some v \<Rightarrow> v)
      | _ \<Rightarrow> delete_spec JNull JNull)"

definition first_match_delete ::
  "module_params \<Rightarrow> json list option \<Rightarrow> restriction \<Rightarrow> request_spec list" where
  "first_match_delete p existing rs =
     (case found_for p existing rs of
        Inr (JObj m # others) \<Rightarrow>
          [delete_restriction_spec (repository p)
             (case fmlookup m ''id'' of None \<Rightarrow> JStr ''none'' | Some v \<Rightarrow> v)]
      | _ \<Rightarrow> [])"

section \<open>Concrete transports and servers for the examples\<close>

text \<open>A network that is down: every attempt ends with status -1 and no response.\<close>

definition always_down :: "nat fetcher" where
  "always_down spec s = ((None, Some \<lparr>status = - 1\<rparr>), Suc s)"

definition projects_get :: request_spec where
  "projects_get = get_of (paged_url ''projects'' (JInt 0))"

text \<open>A server that gives every request the same answer.\<close>

definition answer :: "int \<Rightarrow> pydict \<Rightarrow> 's requester" where
  "answer st content spec s = (Inr (Some \<lparr>status = st\<rparr>, content), s)"

text \<open>
  A listing of two pages, of one item each: the page at \<open>start=1\<close> is the last one, the
  page at any other offset is the first and points to \<open>start=1\<close>.
\<close>

definition first_page :: pydict where
  "first_page = fmap_of_list
     [(''values'', JList [JStr ''a'']), (''isLastPage'', JBool False), (''nextPageStart'', JInt 1)]"

definition second_page :: pydict where
  "second_page = fmap_of_list [(''values'', JList [JStr ''b'']), (''isLastPage'', JBool True)]"

definition two_pages :: "unit requester" where
  "two_pages spec s =
     (if start (url spec) = Some (JInt 1) then (Inr (Some \<lparr>status = 200\<rparr>, second_page), s)
      else (Inr (Some \<lparr>status = 200\<rparr>, first_page), s))"

text \<open>A page that says it is not the last one and names no next page.\<close>

definition no_cursor_page :: pydict where
  "no_cursor_page = fmap_of_list [(''values'', JList [JStr ''a'']), (''isLastPage'', JBool False)]"

text \<open>A page without \<open>isLastPage\<close>.\<close>

definition bare_page :: pydict where
  "bare_page = fmap_of_list [(''values'', JList [JStr ''a'', JStr ''b''])]"

definition default_params :: params where
  "default_params = \<lparr>retries = 3, sleep = 5\<rparr>"




text \<open>A transport for the lookup plugin that answers 200 with a given JSON body.\<close>

definition lookup_ok :: "json \<Rightarrow> unit lookup_fetcher" where
  "lookup_ok js u s = ((Some (JsonBody js), None, \<lparr>status = 200\<rparr>), s)"

text \<open>Module parameters for the examples.\<close>

definition base_params :: module_params where
  "base_params =
     \<lparr>state = ''present'', check_mode = False, repository = Some ''bar'',
      branch = ''feature/x'', from_branch = ''develop'', to_branch = ''master'',
      is_default = False, webhook_name = ''wh_repo1'',
      webhook_url = ''https://jenkins.example.com/bitbucket-hook/'',
      event = ''repo:refs_changed'', title = ''Pull request'', reviewers = [],
      selector = BranchName ''master'',
      restrictions = [\<lparr>prevent = ''deletion'', exemptions = None\<rparr>]\<rparr>"





text \<open>
  An existing restriction as the server lists it: no deletion of the branch \<open>master\<close> of
  the repository, without exemptions.
\<close>

definition master_no_deletes :: "int \<Rightarrow> json" where
  "master_no_deletes n =
     JObj (fmap_of_list
       [(''id'', JInt n),
        (''scope'', JObj (fmap_of_list [(''type'', JStr ''REPOSITORY''), (''resourceId'', JInt 292)])),
        (''type'', JStr ''no-deletes''),
        (''matcher'', JObj (get_matcher ''branch_name'' ''master'')),
        (''users'', JList []), (''groups'', JList []), (''accessKeys'', JList [])])"

text \<open>An open pull request from \<open>develop\<close> to \<open>master\<close>, as the server lists it.\<close>

definition develop_to_master :: "int \<Rightarrow> json" where
  "develop_to_master n =
     JObj (fmap_of_list
       [(''id'', JInt n), (''version'', JInt 0),
        (''fromRef'', JObj (fmap_of_list [(''displayId'', JStr ''develop'')])),
        (''toRef'', JObj (fmap_of_list [(''displayId'', JStr ''master'')]))])"





section \<open>Properties of the request executor\<close>

lemma request_loop_done:
  "\<not> n \<le> max_retries \<Longrightarrow>
   request_loop fetch_url max_retries secs spec n prev w = (Inr (prev, n), w)"
  by (subst request_loop.simps) simp

lemma request_loop_failed_attempt:
  assumes "n \<le> max_retries" and "0 \<le> secs"
    and "fetch_url spec s = ((b, Some \<lparr>status = - 1\<rparr>), s')"
  shows "request_loop fetch_url max_retries secs spec n prev (log, s) =
         request_loop fetch_url max_retries secs spec (n + 1) (Some (b, Some \<lparr>status = - 1\<rparr>))
           (log @ [Fetch spec, Sleep secs], s')"
  using assms by (subst request_loop.simps) (simp add: time_sleep_def)

lemma request_loop_always_failing:
  assumes down: "\<And>s. \<exists>b s'. fetch_url spec s = ((b, Some \<lparr>status = - 1\<rparr>), s')"
    and secs: "0 \<le> secs"
  shows "k = nat (max_retries + 1 - n) \<Longrightarrow> n \<le> max_retries \<Longrightarrow>
     \<exists>b s'. request_loop fetch_url max_retries secs spec n prev (log, s) =
       (Inr (Some (b, Some \<lparr>status = - 1\<rparr>), max_retries + 1),
        (log @ concat (replicate k [Fetch spec, Sleep secs]), s'))"
proof (induction k arbitrary: n prev log s)
  case 0
  then show ?case by simp
next
  case (Suc k)
  obtain b s' where f: "fetch_url spec s = ((b, Some \<lparr>status = - 1\<rparr>), s')"
    using down by blast
  have step: "request_loop fetch_url max_retries secs spec n prev (log, s) =
         request_loop fetch_url max_retries secs spec (n + 1) (Some (b, Some \<lparr>status = - 1\<rparr>))
           (log @ [Fetch spec, Sleep secs], s')"
    using Suc.prems(2) secs f by (rule request_loop_failed_attempt)
  show ?case
  proof (cases "n + 1 \<le> max_retries")
    case True
    have "k = nat (max_retries + 1 - (n + 1))" using Suc.prems by simp
    from Suc.IH[OF this True, of "Some (b, Some \<lparr>status = - 1\<rparr>)" "log @ [Fetch spec, Sleep secs]" s']
    show ?thesis unfolding step by simp
  next
    case False
    then have "n = max_retries" "k = 0" using Suc.prems by simp_all
    then show ?thesis unfolding step using False
      by (simp add: request_loop_done)
  qed
qed

text \<open>
  C3. When every attempt ends with status -1, the executor makes exactly \<open>retries\<close>
  attempts and hands the last \<open>info\<close> (status -1) back to the caller as an ordinary return
  value, with \<open>fetch_url_retries = retries + 1\<close>. It sleeps after every failed attempt, the
  last one included: the log ends with a sleep, where the claim has no sleep after the
  last attempt.
\<close>

theorem request_all_attempts_fail:
  assumes down: "\<And>s. \<exists>b s'. fetch_url spec s = ((b, Some \<lparr>status = - 1\<rparr>), s')"
    and "1 \<le> retries p" and "0 \<le> sleep p"
  shows "\<exists>b s'. request fetch_url p spec (log, s) =
      (Inr (Some \<lparr>status = - 1\<rparr>,
            fmupd ''fetch_url_retries'' (JInt (retries p + 1)) (parse_body b)),
       (log @ concat (replicate (nat (retries p)) [Fetch spec, Sleep (sleep p)]), s'))"
proof -
  have "\<exists>b s'. request_loop fetch_url (retries p) (sleep p) spec 1 None (log, s) =
       (Inr (Some (b, Some \<lparr>status = - 1\<rparr>), retries p + 1),
        (log @ concat (replicate (nat (retries p)) [Fetch spec, Sleep (sleep p)]), s'))"
  proof (rule request_loop_always_failing)
    show "\<exists>b s'. fetch_url spec s = ((b, Some \<lparr>status = - 1\<rparr>), s')" for s
      by (rule down)
    show "0 \<le> sleep p" by (rule assms(3))
    show "nat (retries p) = nat (retries p + 1 - 1)" by simp
    show "1 \<le> retries p" by (rule assms(2))
  qed
  then obtain b s' where
    "request_loop fetch_url (retries p) (sleep p) spec 1 None (log, s) =
       (Inr (Some (b, Some \<lparr>status = - 1\<rparr>), retries p + 1),
        (log @ concat (replicate (nat (retries p)) [Fetch spec, Sleep (sleep p)]), s'))"
    by blast
  then show ?thesis by (auto simp add: request_def)
qed

text \<open>
  The same at \<open>retries = 3\<close>, \<open>sleep = 5\<close> (the defaults) on a network that is down: three
  attempts, three sleeps, the third after the last attempt.
\<close>

theorem request_all_attempts_fail_witness:
  "fst (snd (request always_down \<lparr>retries = 3, sleep = 5\<rparr> projects_get ([], 0))) =
     [Fetch projects_get, Sleep 5, Fetch projects_get, Sleep 5, Fetch projects_get, Sleep 5]
   \<and> (\<exists>b. fst (request always_down \<lparr>retries = 3, sleep = 5\<rparr> projects_get ([], 0)) =
          Inr (Some \<lparr>status = - 1\<rparr>, fmupd ''fetch_url_retries'' (JInt 4) (parse_body b)))"
proof -
  have "\<exists>b s'. always_down projects_get s = ((b, Some \<lparr>status = - 1\<rparr>), s')" for s
    by (simp add: always_down_def)
  from request_all_attempts_fail[of always_down projects_get "\<lparr>retries = 3, sleep = 5\<rparr>" "[]" 0,
      OF this]
  obtain b s' where
    "request always_down \<lparr>retries = 3, sleep = 5\<rparr> projects_get ([], 0) =
      (Inr (Some \<lparr>status = - 1\<rparr>, fmupd ''fetch_url_retries'' (JInt 4) (parse_body b)),
       ([] @ concat (replicate (nat 3) [Fetch projects_get, Sleep 5]), s'))"
    by auto
  then show ?thesis by (auto simp: numeral_3_eq_3)
qed

text \<open>
  C9. With \<open>retries\<close> zero or negative the loop body never runs: no attempt is made, the
  world is left as it was, and reading \<open>response\<close> raises \<open>UnboundLocalError\<close>, whatever the
  method, URL and payload.
\<close>

theorem request_nonpositive_retries:
  "retries p \<le> 0 \<Longrightarrow>
   request fetch_url p spec w = (Inl (UnboundLocalError ''response''), w)"
  by (simp add: request_def request_loop_done)

theorem request_nonpositive_retries_witness:
  "request always_down \<lparr>retries = 0, sleep = 5\<rparr> projects_get ([], 0) =
     (Inl (UnboundLocalError ''response''), ([], 0))
   \<and> request always_down \<lparr>retries = - 2, sleep = 5\<rparr>
         \<lparr>url = plain_url ''repos'', http_method = ''POST'', data = Some (JStr ''x'')\<rparr> ([], 7) =
     (Inl (UnboundLocalError ''response''), ([], 7))"
  using request_nonpositive_retries[of "\<lparr>retries = 0, sleep = 5\<rparr>" always_down projects_get "([], 0)"]
    request_nonpositive_retries[of "\<lparr>retries = - 2, sleep = 5\<rparr>" always_down
      "\<lparr>url = plain_url ''repos'', http_method = ''POST'', data = Some (JStr ''x'')\<rparr>" "([], 7)"]
  by simp

section \<open>Properties of \<open>get_matcher\<close>\<close>

lemma capitalize_feature: "capitalize ''feature'' = ''Feature''"
  by code_simp

text \<open>
  C10. For the matcher type \<open>branching_model\<close> the result always has the type id
  \<open>MODEL_BRANCH\<close> and the id \<open>matcher_name\<close> as given, for every \<open>matcher_name\<close>: the
  condition of line 431 is true for every string, so the \<open>MODEL_CATEGORY\<close> branch with
  the upper-cased id is never taken, not even for the category names.
\<close>

theorem get_matcher_branching_model:
  "get_matcher ''branching_model'' matcher_name =
     matcher_dict (capitalize matcher_name) matcher_name ''MODEL_BRANCH'' ''Branching model branch''
   \<and> fmlookup (get_matcher ''branching_model'' matcher_name) ''id'' = Some (JStr matcher_name)
   \<and> fmlookup (get_matcher ''branching_model'' matcher_name) ''type'' =
       Some (JObj (fmap_of_list [(''id'', JStr ''MODEL_BRANCH''),
                                 (''name'', JStr ''Branching model branch'')]))"
  by (simp add: get_matcher_def matcher_dict_def)

theorem get_matcher_branching_model_witness:
  "get_matcher ''branching_model'' ''feature'' =
     fmap_of_list
       [(''active'', JBool True), (''displayId'', JStr ''Feature''), (''id'', JStr ''feature''),
        (''type'', JObj (fmap_of_list [(''id'', JStr ''MODEL_BRANCH''),
                                       (''name'', JStr ''Branching model branch'')]))]"
  using get_matcher_branching_model[of "''feature''"]
  by (simp add: matcher_dict_def capitalize_feature)

section \<open>Properties of the paginated listers\<close>


lemma page_loop_last_page:
  assumes "req (get_of (mk_url c)) s = (Inr (i, content), s')"
    and "fmlookup content key = Some (JList ys)"
    and "fmlookup content ''isLastPage'' = None"
  shows "page_loop (Suc fuel) req mk_url key items c (log, s) =
           (Some (Inr (items @ ys, i)), (log @ [get_of (mk_url c)], s'))"
  using assms by (simp add: call_def bindE_def list_extend_def)

lemma page_loop_fixed_url:
  "page_loop fuel two_pages (\<lambda>nextPageStart. paged_url ep (JInt 0)) ''values'' items c (log, ()) =
     (None, (log @ replicate fuel (get_of (paged_url ep (JInt 0))), ()))"
proof (induction fuel arbitrary: items c log)
  case 0
  show ?case by simp
next
  case (Suc fuel)
  have "two_pages (get_of (paged_url ep (JInt 0))) () = (Inr (Some \<lparr>status = 200\<rparr>, first_page), ())"
    by (simp add: two_pages_def get_of_def paged_url_def)
  then show ?case
    by (simp add: call_def bindE_def list_extend_def first_page_def Suc.IH replicate_append_same)
qed

text \<open>
  C4. On a listing of two pages \<open>get_branch_permissions_info\<close> asks for \<open>start=0\<close> over
  and over: whatever the number of iterations allowed, every request of the run carries
  the cursor 0 and the run has not ended. The cursor is revisited, and the first page is
  fetched again each time.
\<close>

theorem branch_permissions_same_cursor:
  "get_branch_permissions_info fuel two_pages fail_when_not_exists repo ([], ()) =
     (None, (replicate fuel (get_of (paged_url (branch_permissions_endpoint repo) (JInt 0))), ()))"
  using page_loop_fixed_url[of fuel "branch_permissions_endpoint repo" "[]" "JInt 0" "[]"]
  by (simp add: get_branch_permissions_info_def after_pages_def)

theorem branch_permissions_same_cursor_witness:
  "get_branch_permissions_info 3 two_pages False None ([], ()) =
     (None,
      ([get_of (paged_url ''branch-permissions-projects/'' (JInt 0)),
        get_of (paged_url ''branch-permissions-projects/'' (JInt 0)),
        get_of (paged_url ''branch-permissions-projects/'' (JInt 0))], ()))"
  using branch_permissions_same_cursor[of 3 False None]
  by (simp add: branch_permissions_endpoint_def numeral_3_eq_3)

text \<open>
  The sibling \<open>get_branches_info\<close>, which formats the URL inside the loop, lists the same
  server in two requests, at the cursors 0 and 1.
\<close>

lemma branches_two_pages:
  "get_branches_info 2 two_pages False ([], ()) =
     (Some (Inr (Some [JStr ''a'', JStr ''b''])),
      ([get_of (paged_url ''branches'' (JInt 0)), get_of (paged_url ''branches'' (JInt 1))], ()))"
  by (simp add: get_branches_info_def after_pages_def numeral_2_eq_2 call_def two_pages_def
      get_of_def paged_url_def bindE_def list_extend_def first_page_def second_page_def
      info_status_def)





text \<open>A page without \<open>isLastPage\<close> ends each of the three listing loops.\<close>

lemma get_list_of_files_last_page:
  assumes "req (get_of (paged_url ''repos-files'' c)) s = (Inr (Some \<lparr>status = 200\<rparr>, content), s')"
    and "fmlookup content ''values'' = Some (JList ys)"
    and "fmlookup content ''isLastPage'' = None"
  shows "get_list_of_files (Suc fuel) req items c (log, s) =
           (Some (Inr (items @ ys)), (log @ [get_of (paged_url ''repos-files'' c)], s'))"
  using assms by (simp add: call_def bindE_def list_extend_def info_status_def)

lemma fileglob_loop_last_page:
  assumes "lookup_request fetch_url p (paged_url ''repos-files'' c) w = (Inr (\<lparr>status = 200\<rparr>, JObj content), w')"
    and "fmlookup content ''values'' = Some (JList ys)"
    and "fmlookup content ''isLastPage'' = None"
  shows "fileglob_loop (Suc fuel) fetch_url p items c w = (Some (Inr (items @ ys)), w')"
  using assms by (simp add: bindE_def list_extend_def)

text \<open>
  C5, as amended. A page response without \<open>isLastPage\<close> is treated as the last page: the
  loop shared by the \<open>BitbucketHelper\<close> listers, the loop of \<open>get_list_of_files\<close> and the
  loop of the fileglob lookup each stop after that response, with its items appended and
  no further request, however many iterations they are allowed.
\<close>

theorem missing_isLastPage_ends_listing:
  assumes "fmlookup content ''isLastPage'' = None"
  shows "(req (get_of (mk_url c)) s = (Inr (i, content), s') \<and> fmlookup content key = Some (JList ys)
          \<longrightarrow> page_loop (Suc fuel) req mk_url key items c (log, s) =
                (Some (Inr (items @ ys, i)), (log @ [get_of (mk_url c)], s')))
       \<and> (req (get_of (paged_url ''repos-files'' c)) s = (Inr (Some \<lparr>status = 200\<rparr>, content), s')
          \<and> fmlookup content ''values'' = Some (JList ys)
          \<longrightarrow> get_list_of_files (Suc fuel) req items c (log, s) =
                (Some (Inr (items @ ys)), (log @ [get_of (paged_url ''repos-files'' c)], s')))
       \<and> (lookup_request fetch_url p (paged_url ''repos-files'' c) w =
             (Inr (\<lparr>status = 200\<rparr>, JObj content), w')
          \<and> fmlookup content ''values'' = Some (JList ys)
          \<longrightarrow> fileglob_loop (Suc fuel) fetch_url p items c w = (Some (Inr (items @ ys)), w'))"
proof (intro conjI impI; elim conjE)
  show "page_loop (Suc fuel) req mk_url key items c (log, s) =
          (Some (Inr (items @ ys, i)), (log @ [get_of (mk_url c)], s'))"
    if "req (get_of (mk_url c)) s = (Inr (i, content), s')" "fmlookup content key = Some (JList ys)"
    using that assms by (rule page_loop_last_page)
  show "get_list_of_files (Suc fuel) req items c (log, s) =
          (Some (Inr (items @ ys)), (log @ [get_of (paged_url ''repos-files'' c)], s'))"
    if "req (get_of (paged_url ''repos-files'' c)) s = (Inr (Some \<lparr>status = 200\<rparr>, content), s')"
      "fmlookup content ''values'' = Some (JList ys)"
    using that assms by (rule get_list_of_files_last_page)
  show "fileglob_loop (Suc fuel) fetch_url p items c w = (Some (Inr (items @ ys)), w')"
    if "lookup_request fetch_url p (paged_url ''repos-files'' c) w =
          (Inr (\<lparr>status = 200\<rparr>, JObj content), w')"
      "fmlookup content ''values'' = Some (JList ys)"
    using that assms by (rule fileglob_loop_last_page)
qed

lemma lookup_ok_request:
  "lookup_request (lookup_ok js) default_params u ([], ()) =
     (Inr (\<lparr>status = 200\<rparr>, js), ([Fetch (get_of u)], ()))"
  by (simp add: lookup_request_def lookup_request_loop.simps lookup_ok_def default_params_def
      lookup_parse_body_def)

theorem missing_isLastPage_witness:
  "page_loop 5 (answer 200 bare_page) (paged_url ''projects'') ''values'' [] (JInt 0) ([], ()) =
     (Some (Inr ([JStr ''a'', JStr ''b''], Some \<lparr>status = 200\<rparr>)), ([projects_get], ()))
   \<and> get_list_of_files 5 (answer 200 bare_page) [] (JInt 0) ([], ()) =
     (Some (Inr [JStr ''a'', JStr ''b'']), ([get_of (paged_url ''repos-files'' (JInt 0))], ()))
   \<and> fileglob_loop 5 (lookup_ok (JObj bare_page)) default_params [] (JInt 0) ([], ()) =
     (Some (Inr [JStr ''a'', JStr ''b'']), ([Fetch (get_of (paged_url ''repos-files'' (JInt 0)))], ()))"
proof -
  have n: "fmlookup bare_page ''isLastPage'' = None"
    and v: "fmlookup bare_page ''values'' = Some (JList [JStr ''a'', JStr ''b''])"
    by (simp_all add: bare_page_def)
  have a: "answer 200 bare_page spec () = (Inr (Some \<lparr>status = 200\<rparr>, bare_page), ())" for spec
    by (simp add: answer_def)
  show ?thesis
    using missing_isLastPage_ends_listing[OF n, where req = "answer 200 bare_page" and s = "()"
      and s' = "()" and i = "Some \<lparr>status = 200\<rparr>" and mk_url = "paged_url ''projects''"
      and c = "JInt 0" and key = "''values''" and ys = "[JStr ''a'', JStr ''b'']" and fuel = 4
      and items = "[]" and log = "[]" and fetch_url = "lookup_ok (JObj bare_page)"
      and p = default_params and w = "([], ())"
      and w' = "([Fetch (get_of (paged_url ''repos-files'' (JInt 0)))], ())"]
      a v
    by (simp add: projects_get_def lookup_ok_request)
qed

text \<open>
  C5 as stated fails in its second case: a page with \<open>isLastPage = false\<close> and no
  \<open>nextPageStart\<close> is not treated as the last page. The lister asks again, with the cursor
  unchanged; three iterations give three requests at \<open>start=0\<close> and no result.
\<close>

theorem no_cursor_page_is_not_last:
  "get_all_projects_info 3 (answer 200 no_cursor_page) ([], ()) =
     (None, ([projects_get, projects_get, projects_get], ()))
   \<and> fmlookup no_cursor_page ''isLastPage'' = Some (JBool False)
   \<and> fmlookup no_cursor_page ''nextPageStart'' = None"
  by (simp add: get_all_projects_info_def after_pages_def eval_nat_numeral call_def answer_def no_cursor_page_def
       bindE_def list_extend_def info_status_def projects_get_def)

text \<open>Against such a server the loop has no result for any number of iterations.\<close>

lemma page_loop_no_cursor_page:
  "page_loop fuel (answer 200 no_cursor_page) mk_url ''values'' items c (log, ()) =
     (None, (log @ replicate fuel (get_of (mk_url c)), ()))"
proof (induction fuel arbitrary: items log)
  case 0
  show ?case by simp
next
  case (Suc fuel)
  have "answer 200 no_cursor_page (get_of (mk_url c)) () =
          (Inr (Some \<lparr>status = 200\<rparr>, no_cursor_page), ())"
    by (simp add: answer_def)
  moreover have "fmlookup no_cursor_page ''values'' = Some (JList [JStr ''a''])"
    "fmlookup no_cursor_page ''isLastPage'' = Some (JBool False)"
    "fmlookup no_cursor_page ''nextPageStart'' = None"
    by (simp_all add: no_cursor_page_def)
  ultimately show ?case
    by (simp add: call_def bindE_def list_extend_def Suc.IH replicate_append_same)
qed








text \<open>
  In \<open>get_list_of_files\<close> of \<open>bitbucket_find\<close> every status but 200 ends in the same
  \<open>NameError\<close>.
\<close>

lemma find_raises_name_error:
  assumes "req (get_of (paged_url ''repos-files'' c)) s = (Inr (Some \<lparr>status = st\<rparr>, content), s')"
    and "st \<noteq> 200"
  shows "get_list_of_files (Suc fuel) req items c (log, s) =
           (Some (Inl (NameError ''AnsibleError'')), (log @ [get_of (paged_url ''repos-files'' c)], s'))"
  using assms by (simp add: call_def bindE_def info_status_def)

section \<open>Properties of the reconciling modules\<close>

lemma get_repository_info_log:
  "fst (snd (get_repository_info req flag (log, s))) = log @ [get_of (plain_url ''repos-repositorySlug'')]"
  by (simp add: get_repository_info_def call_def split: prod.splits sum.splits)

lemma repo_main_check_mode_log:
  "check_mode p \<Longrightarrow>
   fst (snd (repo_main req p (log, s))) = log @ [get_of (plain_url ''repos-repositorySlug'')]"
  using get_repository_info_log[of req False log s]
  by (auto simp add: repo_main_def split: prod.splits sum.splits)





lemma mutating_get_of [simp]: "\<not> mutating (get_of u)"
  by (simp add: mutating_def get_of_def)

lemma call_log: "fst (snd (call req spec r)) = fst r @ [spec]"
  by (simp add: call_def split: prod.splits)







lemma found_for_check_mode [simp]:
  "found_for (p\<lparr>check_mode := b\<rparr>) existing rs = found_for p existing rs"
  by (simp add: found_for_def scope_type_of_def)
















text \<open>
  The same holds of the reconciling part of \<open>bitbucket_branch\<close>, \<open>bitbucket_webhook\<close> and
  \<open>bitbucket_pull_request\<close>: in check mode it sends no request at all, and it reports the
  verdict of the real run.
\<close>

lemma webhook_reconcile_check_mode:
  "check_mode p \<Longrightarrow> snd (webhook_reconcile req p existing r) = r"
  by (auto simp: webhook_reconcile_def split: sum.splits)

lemma webhook_reconcile_same_verdict:
  "fst (webhook_reconcile req (p\<lparr>check_mode := False\<rparr>) existing r) = Inr res \<Longrightarrow>
   \<exists>res0. fst (webhook_reconcile req (p\<lparr>check_mode := True\<rparr>) existing r0) = Inr res0
          \<and> changed res0 = changed res"
  by (auto simp: webhook_reconcile_def split: sum.splits prod.splits if_splits)

lemma branch_reconcile_check_mode:
  "check_mode p \<Longrightarrow> snd (branch_reconcile req p existing r) = r"
  by (auto simp: branch_reconcile_def split: sum.splits)

lemma branch_reconcile_same_verdict:
  "fst (branch_reconcile req (p\<lparr>check_mode := False\<rparr>) existing r) = Inr res \<Longrightarrow>
   \<exists>res0. fst (branch_reconcile req (p\<lparr>check_mode := True\<rparr>) existing r0) = Inr res0
          \<and> changed res0 = changed res"
  by (auto simp: branch_reconcile_def split: sum.splits prod.splits if_splits)

lemma pull_matches_check_mode [simp]:
  "pull_matches (p\<lparr>check_mode := b\<rparr>) d = pull_matches p d"
  by (simp add: pull_matches_def bindE_def split: sum.splits)

lemma delete_pulls_check_mode:
  "check_mode p \<Longrightarrow> snd (delete_pulls req p ds acc r) = r"
  by (induction ds arbitrary: acc) (auto split: sum.splits bool.splits)

lemma delete_pulls_same_verdict:
  "delete_pulls req (p\<lparr>check_mode := False\<rparr>) ds (c, js) r = (Inr (c', js'), r') \<Longrightarrow>
   \<exists>js0. delete_pulls req (p\<lparr>check_mode := True\<rparr>) ds (c, x) r0 = (Inr (c', js0), r0)"
proof (induction ds arbitrary: c js r x)
  case Nil
  then show ?case by simp
next
  case (Cons d ds)
  show ?case
  proof (cases "pull_matches p d")
    case (Inl e)
    with Cons.prems show ?thesis by simp
  next
    case (Inr b)
    with Cons.prems Cons.IH show ?thesis
      by (cases b) (auto split: sum.splits prod.splits)
  qed
qed

lemma create_needed_check_mode [simp]:
  "create_needed (p\<lparr>check_mode := b\<rparr>) existing = create_needed p existing"
  by (simp add: create_needed_def cong: if_cong)

lemma pull_request_reconcile_check_mode:
  assumes "check_mode p"
  shows "snd (pull_request_reconcile req p existing r) = r"
proof (cases "create_needed p existing")
  case (Inl e)
  then show ?thesis by (simp add: pull_request_reconcile_def)
next
  case (Inr b)
  show ?thesis
  proof (cases b)
    case True
    with Inr assms show ?thesis by (simp add: pull_request_reconcile_def)
  next
    case False
    show ?thesis
    proof (cases existing)
      case None
      with Inr False show ?thesis by (simp add: pull_request_reconcile_def)
    next
      case (Some xs)
      show ?thesis
      proof (cases xs)
        case Nil
        with Some Inr False show ?thesis by (simp add: pull_request_reconcile_def)
      next
        case (Cons d ds)
        with Some Inr False show ?thesis
          using delete_pulls_check_mode[OF assms, of req "d # ds" "(False, JObj fmempty)" r]
          by (auto simp add: pull_request_reconcile_def simp del: delete_pulls.simps
              split: prod.splits sum.splits)
      qed
    qed
  qed
qed

lemma pull_request_reconcile_same_verdict:
  assumes "fst (pull_request_reconcile req (p\<lparr>check_mode := False\<rparr>) existing r) = Inr res"
  shows "\<exists>res0. fst (pull_request_reconcile req (p\<lparr>check_mode := True\<rparr>) existing r0) = Inr res0
          \<and> changed res0 = changed res"
proof (cases "create_needed p existing")
  case (Inl e)
  with assms show ?thesis by (simp add: pull_request_reconcile_def)
next
  case (Inr b)
  show ?thesis
  proof (cases b)
    case True
    with Inr assms show ?thesis
      by (auto simp add: pull_request_reconcile_def split: prod.splits sum.splits)
  next
    case False
    show ?thesis
    proof (cases existing)
      case None
      with Inr False assms show ?thesis by (simp add: pull_request_reconcile_def)
    next
      case (Some xs)
      show ?thesis
      proof (cases xs)
        case Nil
        with Some Inr False assms show ?thesis by (simp add: pull_request_reconcile_def)
      next
        case (Cons d ds)
        show ?thesis
        proof (cases "state p = ''absent''")
          case notabs: False
          with Cons Some Inr False assms show ?thesis
            by (simp add: pull_request_reconcile_def)
        next
          case True
          with Cons Some Inr \<open>\<not> b\<close> assms obtain chg js r1 where
            "delete_pulls req (p\<lparr>check_mode := False\<rparr>) (d # ds) (False, JObj fmempty) r = (Inr (chg, js), r1)"
            and "changed res = chg"
            by (auto simp add: pull_request_reconcile_def simp del: delete_pulls.simps
                split: prod.splits sum.splits)
          with delete_pulls_same_verdict[of req p "d # ds" False "JObj fmempty" r chg js r1 "JObj fmempty" r0]
          show ?thesis
            using Cons Some Inr \<open>\<not> b\<close> True
            by (auto simp add: pull_request_reconcile_def simp del: delete_pulls.simps)
        qed
      qed
    qed
  qed
qed


lemma delete_pull_request_log:
  "fst (snd (delete_pull_request req pull_id version r)) = fst r @ [delete_spec pull_id version]"
  using call_log[of req "delete_spec pull_id version" r]
  by (auto simp: delete_pull_request_def split: prod.splits sum.splits)

lemma delete_branch_permission_log:
  "fst (snd (delete_branch_permission req repo rid r)) = fst r @ [delete_restriction_spec repo rid]"
  using call_log[of req "delete_restriction_spec repo rid" r]
  by (auto simp: delete_branch_permission_def split: prod.splits sum.splits)

lemma pull_matches_dict:
  "pull_matches p d = Inr b \<Longrightarrow> \<exists>m. d = JObj m"
  by (cases d) (simp_all add: pull_matches_def ref_is_def bindE_def)

lemma delete_pulls_log:
  assumes "\<not> check_mode p"
  shows "delete_pulls req p ds acc (log, s) = (Inr (chg, js), (log', s')) \<Longrightarrow>
     log' = log @ map pull_delete_spec (filter (\<lambda>d. pull_matches p d = Inr True) ds)
     \<and> chg = (fst acc \<or> filter (\<lambda>d. pull_matches p d = Inr True) ds \<noteq> [])"
proof (induction ds arbitrary: acc log s)
  case Nil
  then show ?case by (cases acc) simp
next
  case (Cons d ds)
  show ?case
  proof (cases "pull_matches p d")
    case (Inl e)
    with Cons.prems show ?thesis by simp
  next
    case (Inr b)
    then obtain m where d: "d = JObj m" using pull_matches_dict by blast
    show ?thesis
    proof (cases b)
      case False
      with Inr Cons.prems have "delete_pulls req p ds acc (log, s) = (Inr (chg, js), (log', s'))"
        by simp
      from Cons.IH[OF this] Inr False show ?thesis by simp
    next
      case True
      define pid where "pid = (case fmlookup m ''id'' of None \<Rightarrow> JNull | Some v \<Rightarrow> v)"
      define ver where "ver = (case fmlookup m ''version'' of None \<Rightarrow> JNull | Some v \<Rightarrow> v)"
      obtain rep r1 where D: "delete_pull_request req pid ver (log, s) = (rep, r1)"
        by (cases "delete_pull_request req pid ver (log, s)") blast
      have l1: "fst r1 = log @ [pull_delete_spec d]"
        using delete_pull_request_log[of req pid ver "(log, s)"] D
        by (simp add: d pull_delete_spec_def pid_def ver_def)
      from Cons.prems Inr True assms D obtain content where
        rep: "rep = Inr content"
        and rest: "delete_pulls req p ds (True, opt_dict content) r1 = (Inr (chg, js), (log', s'))"
        by (cases rep) (simp_all add: d bindE_def pid_def ver_def)
      from Cons.IH[of "(True, opt_dict content)" "fst r1" "snd r1"] rest
      have "log' = fst r1 @ map pull_delete_spec (filter (\<lambda>d. pull_matches p d = Inr True) ds)"
        and "chg = True" by simp_all
      with l1 Inr True show ?thesis by simp
    qed
  qed
qed

lemma py_get_dict:
  "py_get v k dflt = Inr x \<Longrightarrow> \<exists>m. v = JObj m \<and> x = (case fmlookup m k of None \<Rightarrow> dflt | Some y \<Rightarrow> y)"
  by (cases v) simp_all

lemma restrictions_loop_absent_log:
  assumes "state p = ''absent''" and "\<not> check_mode p"
  shows "restrictions_loop req p existing rs acc (log, s) = (Inr (chg, results), (log', s')) \<Longrightarrow>
     log' = log @ concat (map (first_match_delete p existing) rs)
     \<and> chg = (fst acc \<or> concat (map (first_match_delete p existing) rs) \<noteq> [])"
proof (induction rs arbitrary: acc log s)
  case Nil
  then show ?case by (cases acc) simp
next
  case (Cons r rest)
  note IH = Cons.IH
  show ?case
  proof (cases "found_for p existing r")
    case (Inl e)
    with Cons.prems show ?thesis by simp
  next
    case (Inr found)
    show ?thesis
    proof (cases found)
      case Nil
      with Inr Cons.prems assms
      have "restrictions_loop req p existing rest acc (log, s) = (Inr (chg, results), (log', s'))"
        by simp
      from Cons.IH[OF this] Inr Nil show ?thesis by (simp add: first_match_delete_def)
    next
      case (Cons first others)
      from Cons.prems Inr Cons assms obtain rid where
        rid: "py_get first ''id'' (JStr ''none'') = Inr rid"
        by (cases "py_get first ''id'' (JStr ''none'')") simp_all
      then obtain m where m: "first = JObj m"
        and ridv: "rid = (case fmlookup m ''id'' of None \<Rightarrow> JStr ''none'' | Some y \<Rightarrow> y)"
        using py_get_dict by blast
      obtain rep r1 where D: "delete_branch_permission req (repository p) rid (log, s) = (rep, r1)"
        by (cases "delete_branch_permission req (repository p) rid (log, s)") blast
      have l1: "fst r1 = log @ first_match_delete p existing r"
        using delete_branch_permission_log[of req "repository p" rid "(log, s)"] D
        by (simp add: first_match_delete_def Inr Cons m ridv)
      from \<open>restrictions_loop req p existing (r # rest) acc (log, s) = (Inr (chg, results), (log', s'))\<close>
        Inr Cons assms rid D obtain dr where
        rest: "restrictions_loop req p existing rest
                 (True, snd acc @ [JObj (fmupd ''status'' (JStr ''deleted'')
                                      (fmupd ''restriction'' first dr))]) r1
               = (Inr (chg, results), (log', s'))"
        by (cases rep) simp_all
      have ne: "first_match_delete p existing r \<noteq> []"
        by (simp add: first_match_delete_def Inr Cons m)
      obtain log1 s1 where r1: "r1 = (log1, s1)" by (cases r1) blast
      from IH[OF rest[unfolded r1]]
      have "log' = log1 @ concat (map (first_match_delete p existing) rest)" and "chg = True"
        by simp_all
      then have "log' = fst r1 @ concat (map (first_match_delete p existing) rest)" and "chg = True"
        by (simp_all add: r1)
      with l1 ne show ?thesis by simp
    qed
  qed
qed


text \<open>
  C2, as amended. With \<open>state = absent\<close>, outside check mode, a run of the pull-request
  module that ends with a result has sent one delete request for every existing pull
  request that matches, in the order of the listing, and a run of the branch-permission
  module has sent, for each supplied restriction with a match, one delete request, for the
  first match. \<open>changed\<close> is true exactly when a delete request was sent.
\<close>

theorem absent_deletes_issued:
  "(state p = ''absent'' \<and> \<not> check_mode p
      \<and> pull_request_reconcile req p (Some ds) (log, s) = (Inr res, (log', s')) \<longrightarrow>
    log' = log @ map pull_delete_spec (filter (\<lambda>d. pull_matches p d = Inr True) ds)
    \<and> changed res = (filter (\<lambda>d. pull_matches p d = Inr True) ds \<noteq> []))
   \<and> (state p = ''absent'' \<and> \<not> check_mode p
      \<and> branch_permissions_reconcile req p existing (log, s) = (Inr res, (log', s')) \<longrightarrow>
    log' = log @ concat (map (first_match_delete p existing) (restrictions p))
    \<and> changed res = (concat (map (first_match_delete p existing) (restrictions p)) \<noteq> []))"
proof (rule conjI; rule impI; elim conjE)
  assume a: "state p = ''absent''" and c: "\<not> check_mode p"
    and run: "pull_request_reconcile req p (Some ds) (log, s) = (Inr res, (log', s'))"
  show "log' = log @ map pull_delete_spec (filter (\<lambda>d. pull_matches p d = Inr True) ds)
    \<and> changed res = (filter (\<lambda>d. pull_matches p d = Inr True) ds \<noteq> [])"
  proof (cases ds)
    case Nil
    with a run show ?thesis by (auto simp: pull_request_reconcile_def create_needed_def)
  next
    case (Cons d rest)
    with a run obtain chg js where
      "delete_pulls req p ds (False, JObj fmempty) (log, s) = (Inr (chg, js), (log', s'))"
      and "changed res = chg"
      by (auto simp: pull_request_reconcile_def create_needed_def split: prod.splits sum.splits)
    with delete_pulls_log[OF c, of req ds "(False, JObj fmempty)" log s chg js log' s']
    show ?thesis by simp
  qed
next
  assume a: "state p = ''absent''" and c: "\<not> check_mode p"
    and run: "branch_permissions_reconcile req p existing (log, s) = (Inr res, (log', s'))"
  then obtain chg results where
    "restrictions_loop req p existing (restrictions p) (False, []) (log, s) = (Inr (chg, results), (log', s'))"
    and "changed res = chg"
    by (auto simp: branch_permissions_reconcile_def branch_permissions_result_def
        split: prod.splits sum.splits)
  with restrictions_loop_absent_log[OF a c, of req existing "restrictions p" "(False, [])" log s chg results log' s']
  show "log' = log @ concat (map (first_match_delete p existing) (restrictions p))
    \<and> changed res = (concat (map (first_match_delete p existing) (restrictions p)) \<noteq> [])"
    by simp
qed

lemma pulls_run:
  "pull_request_reconcile (answer 204 fmempty) (base_params\<lparr>state := ''absent''\<rparr>)
     (Some [develop_to_master 1, develop_to_master 2]) ([], ()) =
   (Inr \<lparr>changed = True, returned = fmap_of_list [(''json'', JObj fmempty)]\<rparr>,
    ([delete_spec (JInt 1) (JInt 0), delete_spec (JInt 2) (JInt 0)], ()))"
  by code_simp

lemma restrictions_run:
  "branch_permissions_reconcile (answer 204 fmempty) (base_params\<lparr>state := ''absent''\<rparr>)
     (Some [master_no_deletes 1, master_no_deletes 2]) ([], ()) =
   (Inr \<lparr>changed = True,
         returned = fmap_of_list
           [(''results'', JList [JObj (fmap_of_list
               [(''status'', JStr ''deleted''), (''restriction'', master_no_deletes 1)])]),
            (''messages'', JList [])]\<rparr>,
    ([delete_restriction_spec (Some ''bar'') (JInt 1)], ()))"
  by code_simp

lemma both_restrictions_match:
  "found_for (base_params\<lparr>state := ''absent''\<rparr>) (Some [master_no_deletes 1, master_no_deletes 2])
     \<lparr>prevent = ''deletion'', exemptions = None\<rparr> = Inr [master_no_deletes 1, master_no_deletes 2]"
  by code_simp

lemma both_pulls_match:
  "filter (\<lambda>d. pull_matches (base_params\<lparr>state := ''absent''\<rparr>) d = Inr True)
     [develop_to_master 1, develop_to_master 2] = [develop_to_master 1, develop_to_master 2]"
  by code_simp

theorem absent_deletes_witness:
  "fst (snd (pull_request_reconcile (answer 204 fmempty) (base_params\<lparr>state := ''absent''\<rparr>)
              (Some [develop_to_master 1, develop_to_master 2]) ([], ()))) =
     map pull_delete_spec [develop_to_master 1, develop_to_master 2]
   \<and> fst (snd (branch_permissions_reconcile (answer 204 fmempty) (base_params\<lparr>state := ''absent''\<rparr>)
              (Some [master_no_deletes 1, master_no_deletes 2]) ([], ()))) =
     concat (map (first_match_delete (base_params\<lparr>state := ''absent''\<rparr>)
                    (Some [master_no_deletes 1, master_no_deletes 2]))
               (restrictions (base_params\<lparr>state := ''absent''\<rparr>)))"
proof -
  have a: "state (base_params\<lparr>state := ''absent''\<rparr>) = ''absent''"
    and c: "\<not> check_mode (base_params\<lparr>state := ''absent''\<rparr>)"
    by (simp_all add: base_params_def)
  from absent_deletes_issued[of "base_params\<lparr>state := ''absent''\<rparr>" "answer 204 fmempty"
      "[develop_to_master 1, develop_to_master 2]" "[]" "()"
      "\<lparr>changed = True, returned = fmap_of_list [(''json'', JObj fmempty)]\<rparr>"
      "[delete_spec (JInt 1) (JInt 0), delete_spec (JInt 2) (JInt 0)]" "()"]
    a c pulls_run both_pulls_match
  have 1: "[delete_spec (JInt 1) (JInt 0), delete_spec (JInt 2) (JInt 0)] =
     map pull_delete_spec [develop_to_master 1, develop_to_master 2]"
    by simp
  from absent_deletes_issued[of "base_params\<lparr>state := ''absent''\<rparr>" "answer 204 fmempty" _ "[]" "()"
      "\<lparr>changed = True,
         returned = fmap_of_list
           [(''results'', JList [JObj (fmap_of_list
               [(''status'', JStr ''deleted''), (''restriction'', master_no_deletes 1)])]),
            (''messages'', JList [])]\<rparr>"
      "[delete_restriction_spec (Some ''bar'') (JInt 1)]" "()"
      "Some [master_no_deletes 1, master_no_deletes 2]"]
    a c restrictions_run
  have 2: "[delete_restriction_spec (Some ''bar'') (JInt 1)] =
     concat (map (first_match_delete (base_params\<lparr>state := ''absent''\<rparr>)
                    (Some [master_no_deletes 1, master_no_deletes 2]))
               (restrictions (base_params\<lparr>state := ''absent''\<rparr>)))"
    by simp
  show ?thesis using 1 2 by (simp add: pulls_run restrictions_run)
qed

text \<open>
  C2 as stated fails in \<open>bitbucket_branch_permissions\<close>: with two existing restrictions
  that match the one supplied, only the first (id 1) is deleted.
\<close>

theorem only_first_restriction_deleted:
  "found_for (base_params\<lparr>state := ''absent''\<rparr>) (Some [master_no_deletes 1, master_no_deletes 2])
     \<lparr>prevent = ''deletion'', exemptions = None\<rparr> = Inr [master_no_deletes 1, master_no_deletes 2]
   \<and> restrictions (base_params\<lparr>state := ''absent''\<rparr>) = [\<lparr>prevent = ''deletion'', exemptions = None\<rparr>]
   \<and> fst (snd (branch_permissions_reconcile (answer 204 fmempty) (base_params\<lparr>state := ''absent''\<rparr>)
              (Some [master_no_deletes 1, master_no_deletes 2]) ([], ()))) =
      [delete_restriction_spec (Some ''bar'') (JInt 1)]"
  by (simp add: both_restrictions_match restrictions_run) (simp add: base_params_def)

text \<open>
  \<open>bitbucket_webhook\<close> sends no delete at all: with any state but \<open>present\<close> it does
  nothing and reports no change, whatever exists.
\<close>

lemma webhook_absent_is_noop:
  "state p \<noteq> ''present'' \<Longrightarrow>
   webhook_reconcile req p existing_webhooks r =
     (Inr \<lparr>changed = False, returned = fmap_of_list [(''json'', JObj fmempty)]\<rparr>, r)"
  by (simp add: webhook_reconcile_def)


















end
